theory Spec2Isabelle
  imports
    Complex_Main
    "HOL-Library.AList"
    "HOL-Library.Char_ord"
    "HOL-Library.List_Lexorder"
    "HOL-Library.Product_Lexorder"
begin

section \<open>Tables\<close>

text \<open>
  The program of \<^verbatim>\<open>src/data_manager.py\<close> works on pandas tables. A table is modelled by
  its list of column names and its list of rows; a row is an association list from
  column names to cells, in column order. A cell is a float (idealised as a real
  number), a string, a timestamp (nanoseconds since the epoch, as pandas stores it), a
  level of the risk categorical, or the missing value (\<open>NaN\<close>, \<open>NaT\<close> and \<open>None\<close> alike).

  The four levels of the categorical stand for the labels of
  \<^verbatim>\<open>pd.cut(..., labels=['Tres Bas', 'Bas', 'Modere', 'Eleve'])\<close> (written with their
  accents in the source), in this order.
\<close>

datatype risk_level = Tres_Bas | Bas | Modere | Eleve

datatype cell = Num real | Str string | Date int | Cat risk_level | NaN

type_synonym row = "(string \<times> cell) list"

record frame =
  columns :: "string list"
  rows :: "row list"

definition cell_of :: "row \<Rightarrow> string \<Rightarrow> cell" where
  "cell_of r c = (case map_of r c of Some v \<Rightarrow> v | None \<Rightarrow> NaN)"

definition column :: "frame \<Rightarrow> string \<Rightarrow> cell list" where
  "column f c = map (\<lambda>r. cell_of r c) (rows f)"

text \<open>\<^verbatim>\<open>data[c] = values\<close>: an existing column is overwritten in place, a new one is
  appended as the last column.\<close>

definition assign :: "frame \<Rightarrow> string \<Rightarrow> cell list \<Rightarrow> frame" where
  "assign f c vs =
     \<lparr>columns = (if c \<in> set (columns f) then columns f else columns f @ [c]),
      rows = map (\<lambda>(r, v). AList.update c v r) (zip (rows f) vs)\<rparr>"

text \<open>Numbers and missing values are what a float column holds.\<close>

fun is_numeric :: "cell \<Rightarrow> bool" where
  "is_numeric (Num x) = True"
| "is_numeric NaN = True"
| "is_numeric _ = False"

fun is_date :: "cell \<Rightarrow> bool" where
  "is_date (Date t) = True"
| "is_date _ = False"

fun to_float :: "cell \<Rightarrow> real option" where
  "to_float (Num x) = Some x"
| "to_float _ = None"

definition mk_frame :: "string list \<Rightarrow> cell list list \<Rightarrow> frame" where
  "mk_frame cols css = \<lparr>columns = cols, rows = map (zip cols) css\<rparr>"

text \<open>The arithmetic mean of a list of numbers.\<close>

definition mean :: "real list \<Rightarrow> real" where
  "mean xs = sum_list xs / real (length xs)"

section \<open>Exceptions, output and state\<close>

text \<open>The exceptions the methods raise or meet, with their message (accents left out).\<close>

datatype error =
    KeyError string
  | ValueError string
  | TypeError string
  | AttributeError string
  | MergeError string
  | FileNotFoundError string
  | OSError string

text \<open>What a method prints: the message of an \<^verbatim>\<open>except\<close> block, tagged with the name
  of the method, or the final columns printed by \<^verbatim>\<open>prepare_features\<close>.\<close>

datatype message = Erreur string error | Colonnes "string list"

text \<open>
  Where the result of a call depends on what the libraries under the program do with
  input that is not of the expected type, and this differs from one version to the next
  or is a matter of parsing text, the model takes the libraries' answer as a parameter:

  \<^item> \<open>float_of\<close>: what the conversion to \<^verbatim>\<open>float64\<close> in scikit-learn's input validation makes
    of a cell that is not a float: a number (the string \<^verbatim>\<open>'3'\<close> is read as 3), a missing
    value, or an error (text that is not a number);
  \<^item> \<open>parse_date\<close>: the timestamp that \<^verbatim>\<open>pd.to_datetime\<close> reads in a cell that is not a
    timestamp, if any;
  \<^item> \<open>drops_other\<close>: whether \<^verbatim>\<open>mean()\<close> on a resampled table silently drops the columns
    it cannot average (pandas before 2.0) or raises (pandas from 2.0 on);
  \<^item> \<open>mean_stamp\<close>: the mean of a day's timestamps in a column of timestamps, with the
    rounding pandas gives it;
  \<^item> \<open>undated\<close>: what resampling makes of a table that has rows but not a single valid
    date (an error in some versions, an empty table in others).
\<close>

record library =
  float_of :: "cell \<Rightarrow> error + real option"
  parse_date :: "cell \<Rightarrow> int option"
  drops_other :: bool
  mean_stamp :: "int list \<Rightarrow> int"
  undated :: "frame \<Rightarrow> error + frame"

text \<open>The fitted attributes \<^verbatim>\<open>mean_\<close>, \<^verbatim>\<open>var_\<close> and \<^verbatim>\<open>scale_\<close> of a
  \<^verbatim>\<open>StandardScaler\<close>, one entry per feature; a missing entry is NaN. An unfitted scaler
  has none.\<close>

record scaler_params =
  sc_mean :: "real option list"
  sc_var :: "real option list"
  sc_scale :: "real option list"

text \<open>The object \<^verbatim>\<open>self\<close> of \<^verbatim>\<open>AgriculturalDataManager\<close>, together with the part of
  the world its methods touch: the tabular files under \<^verbatim>\<open>data/\<close> (already parsed),
  whether that directory can be written, and the lines printed so far.\<close>

record state =
  monitoring_data :: "frame option"
  weather_data :: "frame option"
  soil_data :: "frame option"
  yield_history :: "frame option"
  scalar :: "scaler_params option"
  files :: "string \<rightharpoonup> frame"
  data_dir :: bool
  printed :: "message list"

text \<open>\<^verbatim>\<open>__init__\<close>: no table is loaded and the scaler is not fitted.\<close>

definition init :: "(string \<rightharpoonup> frame) \<Rightarrow> bool \<Rightarrow> state" where
  "init fs d =
     \<lparr>monitoring_data = None, weather_data = None, soil_data = None, yield_history = None,
      scalar = None, files = fs, data_dir = d, printed = []\<rparr>"

definition print_error :: "string \<Rightarrow> error \<Rightarrow> state \<Rightarrow> state" where
  "print_error who e st = st\<lparr>printed := printed st @ [Erreur who e]\<rparr>"

text \<open>\<^verbatim>\<open>frame.to_csv(path, index=False)\<close>: fails when the directory is not there.\<close>

definition to_csv :: "state \<Rightarrow> string \<Rightarrow> frame \<Rightarrow> error + state" where
  "to_csv st path f =
     (if data_dir st then Inr (st\<lparr>files := (files st)(path \<mapsto> f)\<rparr>)
      else Inl (OSError path))"

section \<open>Risk metrics\<close>

subsection \<open>Standardisation\<close>

text \<open>
  \<^verbatim>\<open>StandardScaler.fit_transform\<close> on the matrix of the selected columns, held here
  column by column. The input is converted to floats, cell by cell: floats and missing
  values are taken as they are, any other cell is converted by the library or makes the
  call fail. The input must have at least one row. Missing values are left out of the
  mean and of the (population) variance and stay missing in the output; a feature of
  variance zero is scaled by 1.
\<close>

fun numeric_cell :: "library \<Rightarrow> cell \<Rightarrow> error + real option" where
  "numeric_cell lib (Num x) = Inr (Some x)"
| "numeric_cell lib NaN = Inr None"
| "numeric_cell lib c = float_of lib c"

fun numeric_cells :: "library \<Rightarrow> cell list \<Rightarrow> error + real option list" where
  "numeric_cells lib [] = Inr []"
| "numeric_cells lib (c # cs) =
     (case numeric_cell lib c of
        Inl e \<Rightarrow> Inl e
      | Inr x \<Rightarrow> (case numeric_cells lib cs of Inl e \<Rightarrow> Inl e | Inr xs \<Rightarrow> Inr (x # xs)))"

fun check_array :: "library \<Rightarrow> cell list list \<Rightarrow> error + real option list list" where
  "check_array lib [] = Inr []"
| "check_array lib (c # cs) =
     (case numeric_cells lib c of
        Inl e \<Rightarrow> Inl e
      | Inr x \<Rightarrow> (case check_array lib cs of Inl e \<Rightarrow> Inl e | Inr xs \<Rightarrow> Inr (x # xs)))"

definition present :: "real option list \<Rightarrow> real list" where
  "present xs = concat (map (\<lambda>x. case x of Some v \<Rightarrow> [v] | None \<Rightarrow> []) xs)"

definition nanmean :: "real option list \<Rightarrow> real option" where
  "nanmean xs =
     (let vs = present xs
      in if vs = [] then None else Some (sum_list vs / real (length vs)))"

definition nanvar :: "real option list \<Rightarrow> real option" where
  "nanvar xs =
     (case nanmean xs of
        None \<Rightarrow> None
      | Some m \<Rightarrow>
          Some (sum_list (map (\<lambda>v. (v - m)\<^sup>2) (present xs)) / real (length (present xs))))"

definition scale_of_var :: "real option \<Rightarrow> real option" where
  "scale_of_var v = (case v of None \<Rightarrow> None | Some s \<Rightarrow> Some (if s = 0 then 1 else sqrt s))"

definition fit :: "real option list list \<Rightarrow> scaler_params" where
  "fit X =
     \<lparr>sc_mean = map nanmean X, sc_var = map nanvar X,
      sc_scale = map (scale_of_var \<circ> nanvar) X\<rparr>"

definition transform_value :: "real option \<Rightarrow> real option \<Rightarrow> real option \<Rightarrow> real option" where
  "transform_value m s x =
     (case (x, m, s) of (Some v, Some mu, Some sd) \<Rightarrow> Some ((v - mu) / sd) | _ \<Rightarrow> None)"

definition transform :: "scaler_params \<Rightarrow> real option list list \<Rightarrow> real option list list" where
  "transform p X =
     map (\<lambda>(col, m, s). map (transform_value m s) col) (zip X (zip (sc_mean p) (sc_scale p)))"

text \<open>\<^verbatim>\<open>fit\<close> first forgets the fitted attributes, then validates; so a failed call
  leaves the scaler unfitted, and a successful one replaces whatever was fitted before.\<close>

definition fit_transform ::
  "library \<Rightarrow> scaler_params option \<Rightarrow> nat \<Rightarrow> cell list list
     \<Rightarrow> scaler_params option \<times> (error + real option list list)" where
  "fit_transform lib old n_rows cols =
     (case check_array lib cols of
        Inl e \<Rightarrow> (None, Inl e)
      | Inr X \<Rightarrow>
          if n_rows = 0 then (None, Inl (ValueError ''Found array with 0 sample(s)''))
          else (let p = fit X in (Some p, Inr (transform p X))))"

subsection \<open>Risk index and category\<close>

definition weighted :: "real option \<Rightarrow> real option \<Rightarrow> real option \<Rightarrow> cell" where
  "weighted a b c =
     (case (a, b, c) of
        (Some x, Some y, Some z) \<Rightarrow> Num (0.5 * x + 0.3 * y + 0.2 * z)
      | _ \<Rightarrow> NaN)"

text \<open>\<^verbatim>\<open>0.5 * normalized_data[:, 0] + 0.3 * normalized_data[:, 1] + 0.2 * normalized_data[:, 2]\<close>\<close>

definition risk_index :: "real option list list \<Rightarrow> cell list" where
  "risk_index normalized =
     (case normalized of
        [c0, c1, c2] \<Rightarrow> map (\<lambda>(a, b, c). weighted a b c) (zip c0 (zip c1 c2))
      | _ \<Rightarrow> [])"

text \<open>
  \<^verbatim>\<open>pd.cut(x, bins, labels)\<close> with the default \<^verbatim>\<open>right=True\<close>: the position of \<open>x\<close> among
  the bin edges is \<^verbatim>\<open>searchsorted(bins, x, side='left')\<close>, the number of edges strictly
  below \<open>x\<close>; position 0 and position \<open>len(bins)\<close> are outside every bin and give a
  missing value, any other position \<open>i\<close> gives label \<open>i - 1\<close>.
\<close>

datatype bound = NegInf | Fin real | PosInf

fun bound_less :: "bound \<Rightarrow> real \<Rightarrow> bool" where
  "bound_less NegInf x = True"
| "bound_less (Fin b) x = (b < x)"
| "bound_less PosInf x = False"

definition searchsorted_left :: "bound list \<Rightarrow> real \<Rightarrow> nat" where
  "searchsorted_left bins x = length (filter (\<lambda>b. bound_less b x) bins)"

definition cut :: "bound list \<Rightarrow> 'a list \<Rightarrow> real \<Rightarrow> 'a option" where
  "cut bins labels x =
     (let i = searchsorted_left bins x
      in if i = 0 \<or> i = length bins \<or> length labels < i then None
         else Some (labels ! (i - 1)))"

definition risk_bins :: "bound list" where
  "risk_bins = [NegInf, Fin (- 1), Fin 0, Fin 1, PosInf]"

definition risk_labels :: "risk_level list" where
  "risk_labels = [Tres_Bas, Bas, Modere, Eleve]"

fun risk_category :: "cell \<Rightarrow> cell" where
  "risk_category (Num x) =
     (case cut risk_bins risk_labels x of Some l \<Rightarrow> Cat l | None \<Rightarrow> NaN)"
| "risk_category _ = NaN"

subsection \<open>Aggregation\<close>

text \<open>
  \<^verbatim>\<open>groupby(['parcelle_id', 'culture'])\<close>: rows with a missing key are left out, and
  the groups come out sorted by key. The rank below orders cells of one kind among
  themselves (numbers by value, strings by code point), and the kinds one after another.
\<close>

fun level_code :: "risk_level \<Rightarrow> nat" where
  "level_code Tres_Bas = 0"
| "level_code Bas = 1"
| "level_code Modere = 2"
| "level_code Eleve = 3"

fun cell_rank :: "cell \<Rightarrow> nat \<times> real \<times> string" where
  "cell_rank (Num x) = (0, x, [])"
| "cell_rank (Str s) = (1, 0, s)"
| "cell_rank (Date t) = (2, real_of_int t, [])"
| "cell_rank (Cat l) = (3, real (level_code l), [])"
| "cell_rank NaN = (4, 0, [])"

definition key_of :: "row \<Rightarrow> cell \<times> cell" where
  "key_of r = (cell_of r ''parcelle_id'', cell_of r ''culture'')"

definition has_key :: "row \<Rightarrow> bool" where
  "has_key r = (fst (key_of r) \<noteq> NaN \<and> snd (key_of r) \<noteq> NaN)"

definition group_keys :: "frame \<Rightarrow> (cell \<times> cell) list" where
  "group_keys f =
     sort_key (\<lambda>(a, b). (cell_rank a, cell_rank b))
       (remdups (map key_of (filter has_key (rows f))))"

definition group_rows :: "frame \<Rightarrow> cell \<times> cell \<Rightarrow> row list" where
  "group_rows f k = filter (\<lambda>r. key_of r = k) (rows f)"

text \<open>The mean of a group's numbers, missing values left out; NaN when none is left.\<close>

definition mean_cells :: "cell list \<Rightarrow> cell" where
  "mean_cells cs =
     (let vs = concat (map (\<lambda>c. case c of Num v \<Rightarrow> [v] | _ \<Rightarrow> []) cs)
      in if vs = [] then NaN else Num (sum_list vs / real (length vs)))"

text \<open>
  \<^verbatim>\<open>x.mode()\<close> of a categorical series: the levels that occur most often among the
  values that are not missing, sorted by level code, that is in the order of the labels.
  \<^verbatim>\<open>lambda x: x.mode()[0] if not x.mode().empty else None\<close> takes the first of them.
\<close>

definition levels_of :: "cell list \<Rightarrow> risk_level list" where
  "levels_of cs = concat (map (\<lambda>c. case c of Cat l \<Rightarrow> [l] | _ \<Rightarrow> []) cs)"

definition mode :: "cell list \<Rightarrow> risk_level list" where
  "mode cs =
     (let ls = levels_of cs;
          top = fold max (map (count_list ls) risk_labels) 0
      in if ls = [] then [] else filter (\<lambda>l. count_list ls l = top) risk_labels)"

definition most_frequent :: "cell list \<Rightarrow> cell" where
  "most_frequent cs = (case mode cs of [] \<Rightarrow> NaN | l # _ \<Rightarrow> Cat l)"

definition agg_row :: "frame \<Rightarrow> cell \<times> cell \<Rightarrow> row" where
  "agg_row f k =
     [(''parcelle_id'', fst k), (''culture'', snd k),
      (''avg_risk_index'', mean_cells (map (\<lambda>r. cell_of r ''risk_index'') (group_rows f k))),
      (''most_frequent_risk_category'',
         most_frequent (map (\<lambda>r. cell_of r ''risk_category'') (group_rows f k)))]"

definition groupby_agg :: "frame \<Rightarrow> frame" where
  "groupby_agg f =
     \<lparr>columns = [''parcelle_id'', ''culture'', ''avg_risk_index'', ''most_frequent_risk_category''],
      rows = map (agg_row f) (group_keys f)\<rparr>"

subsection \<open>The method\<close>

definition required_columns :: "string list" where
  "required_columns = [''parcelle_id'', ''culture'', ''rendement_estime'', ''ph'', ''matiere_organique'']"

text \<open>The loop over \<^verbatim>\<open>required_columns\<close>: the first column that is missing raises.\<close>

fun check_columns :: "string list \<Rightarrow> frame \<Rightarrow> error option" where
  "check_columns [] f = None"
| "check_columns (c # cs) f =
     (if c \<notin> set (columns f) then Some (KeyError (''Colonne requise manquante : '' @ c))
      else check_columns cs f)"

definition feature_columns :: "string list" where
  "feature_columns = [''rendement_estime'', ''ph'', ''matiere_organique'']"

text \<open>The two assignments \<^verbatim>\<open>data['risk_index'] = ...\<close> and
  \<^verbatim>\<open>data['risk_category'] = pd.cut(data['risk_index'], ...)\<close> on the caller's table.\<close>

definition add_risk_columns :: "frame \<Rightarrow> real option list list \<Rightarrow> frame" where
  "add_risk_columns data normalized =
     (let data1 = assign data ''risk_index'' (risk_index normalized)
      in assign data1 ''risk_category'' (map risk_category (column data1 ''risk_index'')))"

text \<open>
  The method takes the state and the caller's table, and gives back the state, the
  caller's table as the method leaves it, and what it returns (\<open>None\<close> for Python's
  \<^verbatim>\<open>None\<close>).
\<close>

definition calculate_risk_metrics ::
  "library \<Rightarrow> state \<Rightarrow> frame \<Rightarrow> state \<times> frame \<times> frame option" where
  "calculate_risk_metrics lib st data =
     (let who = ''calculate_risk_metrics'' in
      case check_columns required_columns data of
        Some e \<Rightarrow> (print_error who e st, data, None)
      | None \<Rightarrow>
         (case fit_transform lib (scalar st) (length (rows data))
                 (map (column data) feature_columns) of
            (sc, Inl e) \<Rightarrow> (print_error who e (st\<lparr>scalar := sc\<rparr>), data, None)
          | (sc, Inr normalized) \<Rightarrow>
             (let st1 = st\<lparr>scalar := sc\<rparr>;
                  data2 = add_risk_columns data normalized;
                  grouped_data = groupby_agg data2
              in case to_csv st1 ''data/grouped_risk_metrics.csv'' grouped_data of
                   Inl e \<Rightarrow> (print_error who e st1, data2, None)
                 | Inr st2 \<Rightarrow> (st2, data2, Some grouped_data))))"

section \<open>Loading and cleaning\<close>

text \<open>
  \<^verbatim>\<open>pd.read_csv(path, parse_dates=[...])\<close>: the file must exist, and the columns to parse
  as dates must be in it. The tables held in \<open>files\<close> are the parsed contents.
\<close>

definition read_csv :: "state \<Rightarrow> string \<Rightarrow> string list \<Rightarrow> error + frame" where
  "read_csv st path parse_dates =
     (case files st path of
        None \<Rightarrow> Inl (FileNotFoundError path)
      | Some f \<Rightarrow>
          if list_all (\<lambda>c. c \<in> set (columns f)) parse_dates then Inr f
          else Inl (ValueError ''Missing column provided to parse_dates''))"

text \<open>\<^verbatim>\<open>load_data\<close> reads the four files in turn; both \<^verbatim>\<open>except\<close> clauses print the
  error and go on, so the tables read before the failure stay set.\<close>

definition load_data :: "state \<Rightarrow> state" where
  "load_data st =
     (let who = ''load_data'' in
      case read_csv st ''data/monitoring_cultures.csv'' [''date''] of
        Inl e \<Rightarrow> print_error who e st
      | Inr m \<Rightarrow>
         (let st1 = st\<lparr>monitoring_data := Some m\<rparr> in
          case read_csv st1 ''data/meteo_detaillee.csv'' [''date''] of
            Inl e \<Rightarrow> print_error who e st1
          | Inr w \<Rightarrow>
             (let st2 = st1\<lparr>weather_data := Some w\<rparr> in
              case read_csv st2 ''data/sols.csv'' [] of
                Inl e \<Rightarrow> print_error who e st2
              | Inr s \<Rightarrow>
                 (let st3 = st2\<lparr>soil_data := Some s\<rparr> in
                  case read_csv st3 ''data/historique_rendements.csv'' [''date''] of
                    Inl e \<Rightarrow> print_error who e st3
                  | Inr y \<Rightarrow> st3\<lparr>yield_history := Some y\<rparr>))))"

text \<open>
  \<^verbatim>\<open>clean_data\<close> has no \<^verbatim>\<open>try\<close>: what goes wrong in it reaches the caller (\<open>Inl\<close>).
  Subscripting \<^verbatim>\<open>None\<close> raises \<^verbatim>\<open>TypeError\<close>, a missing column raises \<^verbatim>\<open>KeyError\<close>, and
  \<^verbatim>\<open>abs\<close> needs numbers.
\<close>

fun abs_cell :: "cell \<Rightarrow> error + cell" where
  "abs_cell (Num x) = Inr (Num \<bar>x\<bar>)"
| "abs_cell NaN = Inr NaN"
| "abs_cell _ = Inl (TypeError ''bad operand type for abs()'')"

fun abs_cells :: "cell list \<Rightarrow> error + cell list" where
  "abs_cells [] = Inr []"
| "abs_cells (c # cs) =
     (case abs_cell c of
        Inl e \<Rightarrow> Inl e
      | Inr x \<Rightarrow> (case abs_cells cs of Inl e \<Rightarrow> Inl e | Inr xs \<Rightarrow> Inr (x # xs)))"

definition clean_data :: "state \<Rightarrow> error + state" where
  "clean_data st =
     (case weather_data st of
        None \<Rightarrow> Inl (TypeError ''NoneType object is not subscriptable'')
      | Some w \<Rightarrow>
          if ''rayonnement_solaire'' \<notin> set (columns w) then Inl (KeyError ''rayonnement_solaire'')
          else (case abs_cells (column w ''rayonnement_solaire'') of
                  Inl e \<Rightarrow> Inl e
                | Inr vs \<Rightarrow> Inr (st\<lparr>weather_data := Some (assign w ''rayonnement_solaire'' vs)\<rparr>)))"

section \<open>Daily resampling\<close>

text \<open>
  Timestamps count nanoseconds; the calendar day of a timestamp is its quotient by the
  length of a day, and a day's label is its midnight.

  \<^verbatim>\<open>pd.to_datetime(column, errors='coerce')\<close> keeps timestamps and missing values; what it
  reads in any other cell is the business of pandas' parser (\<open>parse_date\<close> of the
  library): a cell that does not parse becomes \<open>NaT\<close>.
\<close>

definition day_ns :: int where
  "day_ns = 86400000000000"

definition to_datetime :: "(cell \<Rightarrow> int option) \<Rightarrow> cell \<Rightarrow> cell" where
  "to_datetime parse c =
     (case c of
        Date t \<Rightarrow> Date t
      | NaN \<Rightarrow> NaN
      | _ \<Rightarrow> (case parse c of Some t \<Rightarrow> Date t | None \<Rightarrow> NaN))"

definition day_of :: "row \<Rightarrow> int option" where
  "day_of r = (case cell_of r ''date'' of Date t \<Rightarrow> Some (t div day_ns) | _ \<Rightarrow> None)"

definition days :: "frame \<Rightarrow> int list" where
  "days f = List.map_filter day_of (rows f)"

definition value_columns :: "frame \<Rightarrow> string list" where
  "value_columns f = filter (\<lambda>c. c \<noteq> ''date'') (columns f)"

text \<open>A column of floats, and a column of timestamps.\<close>

definition numeric_column :: "frame \<Rightarrow> string \<Rightarrow> bool" where
  "numeric_column f c = list_all is_numeric (column f c)"

definition stamp_column :: "frame \<Rightarrow> string \<Rightarrow> bool" where
  "stamp_column f c = list_all (\<lambda>x. is_date x \<or> x = NaN) (column f c)"

definition rows_on :: "frame \<Rightarrow> int \<Rightarrow> row list" where
  "rows_on f d = filter (\<lambda>r. day_of r = Some d) (rows f)"

text \<open>The mean of a day's cells: of its numbers in a column of floats, of its timestamps
  in a column of timestamps; missing values are left out, and an empty day gives a
  missing value.\<close>

definition stamps_of :: "cell list \<Rightarrow> int list" where
  "stamps_of cs = concat (map (\<lambda>c. case c of Date t \<Rightarrow> [t] | _ \<Rightarrow> []) cs)"

definition mean_stamps :: "library \<Rightarrow> cell list \<Rightarrow> cell" where
  "mean_stamps lib cs =
     (let ts = stamps_of cs in if ts = [] then NaN else Date (mean_stamp lib ts))"

definition daily_value :: "library \<Rightarrow> frame \<Rightarrow> string \<Rightarrow> int \<Rightarrow> cell" where
  "daily_value lib f c d =
     (let cs = map (\<lambda>r. cell_of r c) (rows_on f d)
      in if numeric_column f c then mean_cells cs else mean_stamps lib cs)"

definition daily_row :: "library \<Rightarrow> frame \<Rightarrow> string list \<Rightarrow> int \<Rightarrow> row" where
  "daily_row lib f cols d =
     (''date'', Date (d * day_ns)) # map (\<lambda>c. (c, daily_value lib f c d)) cols"

text \<open>
  \<^verbatim>\<open>f.set_index('date').resample('D').mean().reset_index()\<close>. Rows without a date are
  left out; the bins are the calendar days from the first to the last date, each with
  the mean of its rows in every column that is kept. What a table with rows but no date
  at all gives is left to the library. A column that holds neither floats nor timestamps
  cannot be averaged: pandas before 2.0 keeps the columns of floats and drops the others,
  pandas from 2.0 on averages floats and timestamps and raises \<^verbatim>\<open>TypeError\<close> on any other
  column.
\<close>

definition resample_mean :: "library \<Rightarrow> frame \<Rightarrow> error + frame" where
  "resample_mean lib f =
     (let cols = value_columns f;
          kept = (if drops_other lib then filter (numeric_column f) cols else cols)
      in if rows f \<noteq> [] \<and> days f = [] then undated lib f
         else if \<not> drops_other lib
                 \<and> \<not> list_all (\<lambda>c. numeric_column f c \<or> stamp_column f c) cols
           then Inl (TypeError ''agg function failed'')
         else Inr \<lparr>columns = ''date'' # kept,
                   rows = (if days f = [] then []
                           else map (daily_row lib f kept)
                                  [Min (set (days f)) .. Max (set (days f))])\<rparr>)"

definition coerce_dates :: "(cell \<Rightarrow> int option) \<Rightarrow> frame \<Rightarrow> frame" where
  "coerce_dates parse w = assign w ''date'' (map (to_datetime parse) (column w ''date''))"

text \<open>The assignment to \<^verbatim>\<open>self.weather_data['date']\<close> comes first and stays when the
  chain that follows raises.\<close>

definition meteo_data_hourly_to_daily :: "library \<Rightarrow> state \<Rightarrow> state" where
  "meteo_data_hourly_to_daily lib st =
     (let who = ''meteo_data_hourly_to_daily'' in
      case weather_data st of
        None \<Rightarrow> print_error who (TypeError ''NoneType object is not subscriptable'') st
      | Some w \<Rightarrow>
          if ''date'' \<notin> set (columns w) then print_error who (KeyError ''date'') st
          else (let w1 = coerce_dates (parse_date lib) w in
                case resample_mean lib w1 of
                  Inl e \<Rightarrow> print_error who e (st\<lparr>weather_data := Some w1\<rparr>)
                | Inr w2 \<Rightarrow> st\<lparr>weather_data := Some w2\<rparr>))"

section \<open>Feature preparation\<close>

subsection \<open>Sorting\<close>

text \<open>
  \<^verbatim>\<open>f.sort_values(by=c)\<close>: the column must exist and its values must be comparable with
  each other (all numbers, all strings or all timestamps); missing values go last. Rows
  with equal keys keep their order here, which pandas' default sort does not promise;
  nothing below depends on it.
\<close>

definition comparable :: "cell list \<Rightarrow> bool" where
  "comparable cs =
     (let kinds = remdups (map (fst \<circ> cell_rank) (filter (\<lambda>c. c \<noteq> NaN) cs))
      in length kinds \<le> 1)"

definition sort_values :: "frame \<Rightarrow> string \<Rightarrow> error + frame" where
  "sort_values f c =
     (if c \<notin> set (columns f) then Inl (KeyError c)
      else if \<not> comparable (column f c)
        then Inl (TypeError ''< not supported between instances'')
      else Inr (f\<lparr>rows := sort_key (\<lambda>r. cell_rank (cell_of r c)) (rows f)\<rparr>))"

subsection \<open>The as-of join on the nearest date\<close>

text \<open>
  \<^verbatim>\<open>pd.merge_asof(left, right, on="date", direction='nearest')\<close> on two tables sorted by
  date. For a left row with timestamp \<open>t\<close>, the backward candidate is the last right row
  with a timestamp \<open>\<le> t\<close> and the forward candidate the first right row with a
  timestamp \<open>\<ge> t\<close>; the join takes the one at the smaller distance, and the backward one
  when the distances are equal. A left row gets missing values when the right table is
  empty. The keys must be timestamps without a missing value.
\<close>

definition stamp :: "row \<Rightarrow> int" where
  "stamp r = (case cell_of r ''date'' of Date t \<Rightarrow> t | _ \<Rightarrow> 0)"

definition backward :: "row list \<Rightarrow> int \<Rightarrow> row option" where
  "backward rs t = (case filter (\<lambda>r. stamp r \<le> t) rs of [] \<Rightarrow> None | c # cs \<Rightarrow> Some (last (c # cs)))"

definition forward :: "row list \<Rightarrow> int \<Rightarrow> row option" where
  "forward rs t = (case filter (\<lambda>r. t \<le> stamp r) rs of [] \<Rightarrow> None | c # cs \<Rightarrow> Some c)"

definition nearest :: "row list \<Rightarrow> int \<Rightarrow> row option" where
  "nearest rs t =
     (case (backward rs t, forward rs t) of
        (Some b, Some f) \<Rightarrow> if t - stamp b \<le> stamp f - t then Some b else Some f
      | (Some b, None) \<Rightarrow> Some b
      | (None, f) \<Rightarrow> f)"










subsection \<open>Left joins\<close>





subsection \<open>Dropping and renaming columns\<close>



subsection \<open>The method\<close>



section \<open>Temporal patterns\<close>

text \<open>A series is a list of values with their index, here the \<open>date\<close> cell of the row
  each value comes from.\<close>

type_synonym series = "(cell \<times> real) list"

record history =
  ndvi_trend :: series
  ndvi_seasonal :: series
  ndvi_residual :: series
  ndvi_moving_avg :: series
  mean_ndvi :: real
  std_ndvi :: real
  min_ndvi :: real
  max_ndvi :: real

record trend =
  pente :: real
  intercept :: real
  variation_moyenne :: real

text \<open>\<^verbatim>\<open>parcelle_data["ndvi"].dropna()\<close>, each value with its date.\<close>

definition dropna_ndvi :: "row list \<Rightarrow> (cell \<times> cell) list" where
  "dropna_ndvi rs =
     concat (map (\<lambda>r. if cell_of r ''ndvi'' = NaN then []
                        else [(cell_of r ''date'', cell_of r ''ndvi'')]) rs)"

text \<open>A series with missing values, reduced to the values that are there.\<close>

definition dropna :: "cell list \<Rightarrow> real option list \<Rightarrow> series" where
  "dropna idx vs =
     concat (map (\<lambda>(i, v). case v of Some y \<Rightarrow> [(i, y)] | None \<Rightarrow> []) (zip idx vs))"

subsection \<open>Seasonal decomposition\<close>

text \<open>
  \<^verbatim>\<open>seasonal_decompose(x, model="additive", period=12)\<close> of \<^verbatim>\<open>statsmodels\<close>. The values
  must be numbers and there must be two full periods of them, 24 observations. The
  trend is the centred moving average over 13 points with half weights at both ends,
  undefined on the first six and the last six points; the seasonal component is the
  mean of the detrended values at each position of the period, centred; the residual
  is what is left, undefined where the trend is.
\<close>

fun as_floats :: "cell list \<Rightarrow> error + real list" where
  "as_floats [] = Inr []"
| "as_floats (Num x # cs) = (case as_floats cs of Inl e \<Rightarrow> Inl e | Inr xs \<Rightarrow> Inr (x # xs))"
| "as_floats (_ # cs) = Inl (ValueError ''could not convert to float'')"

definition centred12 :: "real list \<Rightarrow> nat \<Rightarrow> real" where
  "centred12 x i =
     (x ! (i - 6) / 2 + sum_list (map (\<lambda>j. x ! j) [i - 5 ..< i + 6]) + x ! (i + 6) / 2) / 12"

definition trend_component :: "real list \<Rightarrow> real option list" where
  "trend_component x =
     map (\<lambda>i. if 6 \<le> i \<and> i + 6 < length x then Some (centred12 x i) else None) [0 ..< length x]"

definition detrended :: "real list \<Rightarrow> real option list" where
  "detrended x = map (\<lambda>(v, t). map_option (\<lambda>m. v - m) t) (zip x (trend_component x))"

definition period_average :: "real list \<Rightarrow> nat \<Rightarrow> real" where
  "period_average x k =
     mean (present (map (\<lambda>i. detrended x ! i) (filter (\<lambda>i. i mod 12 = k) [0 ..< length x])))"

definition seasonal_component :: "real list \<Rightarrow> real list" where
  "seasonal_component x =
     (let pa = map (period_average x) [0 ..< 12]
      in map (\<lambda>i. pa ! (i mod 12) - mean pa) [0 ..< length x])"

definition resid_component :: "real list \<Rightarrow> real option list" where
  "resid_component x =
     map (\<lambda>(d, s). map_option (\<lambda>v. v - s) d) (zip (detrended x) (seasonal_component x))"

record decomposition =
  observed_c :: "real list"
  trend_c :: "real option list"
  seasonal_c :: "real list"
  resid_c :: "real option list"

definition seasonal_decompose :: "cell list \<Rightarrow> error + decomposition" where
  "seasonal_decompose vals =
     (case as_floats vals of
        Inl e \<Rightarrow> Inl e
      | Inr x \<Rightarrow>
          if length x < 24
            then Inl (ValueError ''x must have 2 complete cycles requires 24 observations'')
          else Inr \<lparr>observed_c = x, trend_c = trend_component x,
                    seasonal_c = seasonal_component x, resid_c = resid_component x\<rparr>)"

subsection \<open>Linear trend\<close>

text \<open>
  \<^verbatim>\<open>index.map(datetime.toordinal)\<close>: the ordinal of a date counts days from 1 January
  of year 1, and the epoch is day 719163. The base-class method is applied to every
  entry of the index; on a missing date (\<open>NaT\<close>) it gives the ordinal 1, and on what is
  not a date it raises.
\<close>

fun toordinal :: "cell \<Rightarrow> error + int" where
  "toordinal (Date t) = Inr (t div day_ns + 719163)"
| "toordinal NaN = Inr 1"
| "toordinal _ = Inl (TypeError ''descriptor toordinal requires a datetime object'')"

fun ordinals :: "cell list \<Rightarrow> error + int list" where
  "ordinals [] = Inr []"
| "ordinals (c # cs) =
     (case toordinal c of
        Inl e \<Rightarrow> Inl e
      | Inr x \<Rightarrow> (case ordinals cs of Inl e \<Rightarrow> Inl e | Inr xs \<Rightarrow> Inr (x # xs)))"

text \<open>
  \<^verbatim>\<open>LinearRegression().fit(X, y)\<close> with one feature: \<open>X\<close> and \<open>y\<close> must have the same
  number of samples. The least-squares line through the points; slope 0 when all the
  \<open>X\<close> are equal.
\<close>

definition linear_fit :: "real list \<Rightarrow> real list \<Rightarrow> error + real \<times> real" where
  "linear_fit X y =
     (if length X \<noteq> length y
        then Inl (ValueError ''Found input variables with inconsistent numbers of samples'')
      else (let sxx = sum_list (map (\<lambda>a. (a - mean X)\<^sup>2) X);
                sxy = sum_list (map (\<lambda>(a, b). (a - mean X) * (b - mean y)) (zip X y));
                slope = (if sxx = 0 then 0 else sxy / sxx)
            in Inr (slope, mean y - slope * mean X)))"

subsection \<open>The method\<close>

text \<open>\<^verbatim>\<open>rolling(window=30).mean().dropna()\<close>: from the 30th value on, the mean of the last
  30 values.\<close>

definition moving_avg :: "cell list \<Rightarrow> real list \<Rightarrow> series" where
  "moving_avg idx x =
     map (\<lambda>i. (idx ! i, mean (map (\<lambda>j. x ! j) [i - 29 ..< i + 1]))) [29 ..< length x]"

definition std :: "real list \<Rightarrow> real" where
  "std x = sqrt (sum_list (map (\<lambda>v. (v - mean x)\<^sup>2) x) / (real (length x) - 1))"

text \<open>Lines 125 to 159, on the rows of the parcel sorted by date: the series of the
  NDVI values that are there, its decomposition, the linear fit of these values against
  the ordinals of the dates of all the rows, and the result.\<close>

definition analyse :: "row list \<Rightarrow> error + history \<times> trend" where
  "analyse sorted_rows =
     (let ndvi_series = dropna_ndvi sorted_rows;
          idx = map fst ndvi_series
      in if length ndvi_series < 12
           then Inl (ValueError
                  ''Pas assez de points de donnees pour une decomposition saisonniere.'')
         else
          (case seasonal_decompose (map snd ndvi_series) of
             Inl e \<Rightarrow> Inl e
           | Inr dec \<Rightarrow>
              (case ordinals (map (\<lambda>r. cell_of r ''date'') sorted_rows) of
                 Inl e \<Rightarrow> Inl e
               | Inr date_ordinal \<Rightarrow>
                  (let x = observed_c dec in
                   case linear_fit (map real_of_int date_ordinal) x of
                     Inl e \<Rightarrow> Inl e
                   | Inr (slope, icpt) \<Rightarrow>
                      Inr (\<lparr>ndvi_trend = dropna idx (trend_c dec),
                            ndvi_seasonal = zip idx (seasonal_c dec),
                            ndvi_residual = dropna idx (resid_c dec),
                            ndvi_moving_avg = moving_avg idx x,
                            mean_ndvi = mean x, std_ndvi = std x,
                            min_ndvi = Min (set x), max_ndvi = Max (set x)\<rparr>,
                           \<lparr>pente = slope, intercept = icpt,
                            variation_moyenne =
                              (if mean x \<noteq> 0 then slope / mean x else 0)\<rparr>)))))"

text \<open>The body of the \<^verbatim>\<open>try\<close>: \<open>Inl\<close> is the exception that ends it. A comparison
  with a missing value is false, so no row is selected for a missing identifier.\<close>

definition temporal_patterns :: "state \<Rightarrow> cell \<Rightarrow> error + history \<times> trend" where
  "temporal_patterns st parcelle_id =
     (case read_csv st ''data/features.csv'' [''date''] of
        Inl e \<Rightarrow> Inl e
      | Inr features \<Rightarrow>
         if ''parcelle_id'' \<notin> set (columns features) then Inl (KeyError ''parcelle_id'')
         else
          (let parcelle_data =
                 features\<lparr>rows := filter (\<lambda>r. parcelle_id \<noteq> NaN \<and> cell_of r ''parcelle_id'' = parcelle_id)
                                     (rows features)\<rparr>
           in if ''ndvi'' \<notin> set (columns parcelle_data)
                then Inl (KeyError ''Colonne NDVI introuvable dans les donnees.'')
              else if rows parcelle_data = []
                then Inl (ValueError ''Aucune donnee trouvee pour parcelle_id'')
              else
               (case sort_values parcelle_data ''date'' of
                  Inl e \<Rightarrow> Inl e
                | Inr sorted_data \<Rightarrow> analyse (rows sorted_data))))"

text \<open>The method: any exception is printed and \<^verbatim>\<open>(None, None)\<close> comes back, here \<open>None\<close>.\<close>

definition get_temporal_patterns :: "state \<Rightarrow> cell \<Rightarrow> state \<times> (history \<times> trend) option" where
  "get_temporal_patterns st parcelle_id =
     (case temporal_patterns st parcelle_id of
        Inl e \<Rightarrow> (print_error ''get_temporal_patterns'' e st, None)
      | Inr r \<Rightarrow> (st, Some r))"

section \<open>Notions used in the statements\<close>

subsection \<open>Tables that the risk scorer accepts\<close>

text \<open>
  A table is accepted by \<^verbatim>\<open>calculate_risk_metrics\<close> when it has the five required
  columns, at least one row, and only numbers and missing values in the three columns
  that are standardised. Such a table is scored whatever the libraries make of other
  cells. A table that lacks a required column or has no row is never scored; a table
  with other cells in the three columns is scored when the conversion to floats reads
  them all.
\<close>

definition accepted :: "frame \<Rightarrow> bool" where
  "accepted data \<longleftrightarrow>
     list_all (\<lambda>c. c \<in> set (columns data)) required_columns \<and> rows data \<noteq> [] \<and>
     list_all (\<lambda>c. list_all is_numeric (column data c)) feature_columns"

definition floats :: "frame \<Rightarrow> string \<Rightarrow> real option list" where
  "floats data c = map to_float (column data c)"

definition matrix :: "frame \<Rightarrow> real option list list" where
  "matrix data = map (floats data) feature_columns"

text \<open>The caller's table after a call on an accepted table, and its rows one by one.\<close>

definition scored :: "frame \<Rightarrow> frame" where
  "scored data = add_risk_columns data (transform (fit (matrix data)) (matrix data))"

definition zcell :: "frame \<Rightarrow> string \<Rightarrow> row \<Rightarrow> real option" where
  "zcell data c r =
     transform_value (nanmean (floats data c)) (scale_of_var (nanvar (floats data c)))
       (to_float (cell_of r c))"

definition row_risk :: "frame \<Rightarrow> row \<Rightarrow> cell" where
  "row_risk data r =
     weighted (zcell data ''rendement_estime'' r) (zcell data ''ph'' r)
       (zcell data ''matiere_organique'' r)"

definition score_row :: "frame \<Rightarrow> row \<Rightarrow> row" where
  "score_row data r =
     AList.update ''risk_category'' (risk_category (row_risk data r))
       (AList.update ''risk_index'' (row_risk data r) r)"

subsection \<open>Standardisation as the specification words it\<close>

text \<open>
  The numbers observed in a column of the input table, their mean, their population
  variance, and the standard score of a value with respect to them. A column whose
  values are all equal has no unit-variance rescaling; its standard scores are 0.
\<close>

definition observed :: "frame \<Rightarrow> string \<Rightarrow> real list" where
  "observed data c = present (floats data c)"

definition variance :: "real list \<Rightarrow> real" where
  "variance xs = mean (map (\<lambda>x. (x - mean xs)\<^sup>2) xs)"

definition zscore :: "real list \<Rightarrow> real \<Rightarrow> real" where
  "zscore xs x = (if variance xs = 0 then 0 else (x - mean xs) / sqrt (variance xs))"

text \<open>The category of a risk index by the right-closed thresholds, and the numbers
  among the cells of a group.\<close>

definition thresholds :: "real \<Rightarrow> risk_level" where
  "thresholds x =
     (if x \<le> - 1 then Tres_Bas else if x \<le> 0 then Bas else if x \<le> 1 then Modere else Eleve)"

definition numbers_of :: "cell list \<Rightarrow> real list" where
  "numbers_of cs = concat (map (\<lambda>c. case c of Num v \<Rightarrow> [v] | _ \<Rightarrow> []) cs)"

subsection \<open>Ties as the specification words them\<close>

text \<open>Among the levels that occur most often, the one met first in the group.\<close>

definition first_encountered_mode :: "cell list \<Rightarrow> cell" where
  "first_encountered_mode cs =
     (let ls = levels_of cs
      in case filter (\<lambda>l. list_all (\<lambda>l'. count_list ls l' \<le> count_list ls l) ls) ls of
           [] \<Rightarrow> NaN
         | l # _ \<Rightarrow> Cat l)"

subsection \<open>Example libraries and tables\<close>

text \<open>
  The library of the examples reads no number and no date in a cell of another type,
  raises on a column it cannot average, takes the mean of timestamps rounded down, and
  raises on a table without a valid date. \<open>ex_library_dropping\<close> differs from it by
  dropping the columns it cannot average.
\<close>

definition ex_library :: library where
  "ex_library =
     \<lparr>float_of = (\<lambda>c. Inl (ValueError ''could not convert string to float'')),
      parse_date = (\<lambda>c. None),
      drops_other = False,
      mean_stamp = (\<lambda>ts. sum_list ts div int (length ts)),
      undated = (\<lambda>f. Inl (ValueError ''Neither start nor end can be NaT''))\<rparr>"

definition ex_library_dropping :: library where
  "ex_library_dropping = ex_library\<lparr>drops_other := True\<rparr>"

definition ex_table :: frame where
  "ex_table =
     mk_frame [''parcelle_id'', ''culture'', ''rendement_estime'', ''ph'', ''matiere_organique'']
       [[Str ''P001'', Str ''Ble'', Num 3, Num 3, Num 3],
        [Str ''P001'', Str ''Ble'', Num 1, Num 1, Num 1]]"

definition ex_single :: frame where
  "ex_single =
     mk_frame [''parcelle_id'', ''culture'', ''rendement_estime'', ''ph'', ''matiere_organique'']
       [[Str ''P001'', Str ''Ble'', Num 3, Num 7, Num 2]]"

definition ex_no_ph :: frame where
  "ex_no_ph =
     mk_frame [''parcelle_id'', ''culture'', ''rendement_estime'', ''matiere_organique'']
       [[Str ''P001'', Str ''Ble'', Num 3, Num 2]]"

text \<open>A table whose \<open>ph\<close> column holds numbers written as text, and a library that reads
  them.\<close>

definition ex_library_reading :: library where
  "ex_library_reading =
     ex_library\<lparr>float_of :=
       (\<lambda>c. if c = Str ''3'' then Inr (Some 3) else if c = Str ''1'' then Inr (Some 1)
            else Inl (ValueError ''could not convert string to float''))\<rparr>"

definition ex_strings :: frame where
  "ex_strings =
     mk_frame [''parcelle_id'', ''culture'', ''rendement_estime'', ''ph'', ''matiere_organique'']
       [[Str ''P001'', Str ''Ble'', Num 3, Str ''3'', Num 3],
        [Str ''P001'', Str ''Ble'', Num 1, Str ''1'', Num 1]]"

definition ex_header :: frame where
  "ex_header =
     mk_frame [''parcelle_id'', ''culture'', ''rendement_estime'', ''ph'', ''matiere_organique'']
       []"

definition ex_groups :: frame where
  "ex_groups =
     mk_frame [''parcelle_id'', ''culture'', ''rendement_estime'', ''ph'', ''matiere_organique'']
       [[Str ''P001'', Str ''Ble'', Num 3, Num 3, Num 3],
        [Str ''P001'', Str ''Ble'', Num 1, Num 1, Num 1],
        [Str ''P002'', NaN, NaN, NaN, NaN]]"

definition ex_groups_result :: frame where
  "ex_groups_result =
     mk_frame [''parcelle_id'', ''culture'', ''avg_risk_index'', ''most_frequent_risk_category'']
       [[Str ''P001'', Str ''Ble'', Num 0, Cat Tres_Bas]]"

subsection \<open>Weather tables\<close>

text \<open>The date coercion, row by row.\<close>

definition coerce_row :: "(cell \<Rightarrow> int option) \<Rightarrow> row \<Rightarrow> row" where
  "coerce_row parse r = AList.update ''date'' (to_datetime parse (cell_of r ''date'')) r"

text \<open>
  A weather table has exactly one row per calendar day when every row has a date and the
  days of the rows, put in order, are the days from the first to the last, each once.
\<close>

definition one_row_per_day :: "frame \<Rightarrow> bool" where
  "one_row_per_day w \<longleftrightarrow>
     list_all (\<lambda>r. day_of r \<noteq> None) (rows w) \<and>
     (rows w = [] \<or> sort (days w) = [Min (set (days w)) .. Max (set (days w))])"

text \<open>
  Example weather tables, and the state that holds one. \<open>ex_weather\<close> has no row on the
  second of its three days and a row without a date; \<open>ex_stations\<close> has no row on the
  second of its three days and a column of text.
\<close>

definition ex_weather :: frame where
  "ex_weather =
     mk_frame [''date'', ''temperature'']
       [[Date 0, Num 5], [Date 176400000000000, Num 7], [NaN, Num 100]]"

definition ex_weather_daily :: frame where
  "ex_weather_daily =
     mk_frame [''date'', ''temperature'']
       [[Date 0, Num 5], [Date 86400000000000, NaN], [Date 172800000000000, Num 7]]"

definition ex_daily :: frame where
  "ex_daily =
     mk_frame [''date'', ''temperature'', ''station'']
       [[Date 86400000000000, Num 5, Str ''A''], [Date 0, Num 7, Str ''B'']]"

definition ex_daily_result :: frame where
  "ex_daily_result =
     mk_frame [''date'', ''temperature''] [[Date 0, Num 7], [Date 86400000000000, Num 5]]"

definition ex_stations :: frame where
  "ex_stations =
     mk_frame [''date'', ''temperature'', ''station'']
       [[Date 0, Num 5, Str ''A''], [Date 172800000000000, Num 7, Str ''B'']]"

definition ex_stations_daily :: frame where
  "ex_stations_daily =
     mk_frame [''date'', ''temperature'']
       [[Date 0, Num 5], [Date 86400000000000, NaN], [Date 172800000000000, Num 7]]"

definition with_weather :: "frame \<Rightarrow> state" where
  "with_weather w = (init Map.empty True)\<lparr>weather_data := Some w\<rparr>"

subsection \<open>Feature tables\<close>

text \<open>The rows of a table in the order of their dates, as \<open>sort_values\<close> leaves them.\<close>

definition by_date :: "row list \<Rightarrow> row list" where
  "by_date rs = sort_key (\<lambda>r. cell_rank (cell_of r ''date'')) rs"

text \<open>
  A small run of the pipeline: one monitoring row on day 10, weather on days 13 and 8,
  the soil of the parcel and one yield record.
\<close>

definition ex_monitoring :: frame where
  "ex_monitoring =
     mk_frame [''parcelle_id'', ''date'', ''ndvi'', ''culture'']
       [[Str ''P001'', Date 864000000000000, Num (1 / 2), Str ''Ble'']]"







subsection \<open>Temporal patterns\<close>

text \<open>The rows of a parcel in the persisted feature table, and those of them that have
  an NDVI value.\<close>

definition parcel_rows :: "frame \<Rightarrow> cell \<Rightarrow> row list" where
  "parcel_rows features pid =
     filter (\<lambda>r. pid \<noteq> NaN \<and> cell_of r ''parcelle_id'' = pid) (rows features)"

definition observations :: "frame \<Rightarrow> cell \<Rightarrow> row list" where
  "observations features pid = filter (\<lambda>r. cell_of r ''ndvi'' \<noteq> NaN) (parcel_rows features pid)"

text \<open>A feature table with twelve observations of one parcel, on twelve consecutive
  days, and the state whose feature file holds a given table.\<close>

definition ex_twelve :: frame where
  "ex_twelve =
     \<lparr>columns = [''parcelle_id'', ''date'', ''ndvi''],
      rows = map (\<lambda>i. [(''parcelle_id'', Str ''P001''), (''date'', Date (int i * day_ns)),
                        (''ndvi'', Num (1 / 2))]) [0 ..< 12]\<rparr>"

definition with_features :: "frame \<Rightarrow> state" where
  "with_features f = init [''data/features.csv'' \<mapsto> f] True"

section \<open>The risk scorer on accepted tables\<close>

lemma numeric_cells_ok: "list_all is_numeric cs \<Longrightarrow> numeric_cells lib cs = Inr (map to_float cs)"
proof (induction cs)
  case Nil
  then show ?case by simp
next
  case (Cons c cs)
  then show ?case by (cases c) simp_all
qed

lemma check_columns_None: "check_columns cs f = None \<longleftrightarrow> list_all (\<lambda>c. c \<in> set (columns f)) cs"
  by (induction cs) auto

lemma check_array_ok:
  "list_all (list_all is_numeric) cols \<Longrightarrow> check_array lib cols = Inr (map (map to_float) cols)"
  by (induction cols) (simp_all add: numeric_cells_ok)

lemma fit_transform_accepted:
  assumes "accepted data"
  shows "fit_transform lib old (length (rows data)) (map (column data) feature_columns)
           = (Some (fit (matrix data)), Inr (transform (fit (matrix data)) (matrix data)))"
proof -
  have "list_all (list_all is_numeric) (map (column data) feature_columns)"
    using assms by (simp add: accepted_def list_all_iff)
  then have "check_array lib (map (column data) feature_columns) = Inr (matrix data)"
    by (simp add: check_array_ok matrix_def floats_def)
  moreover have "length (rows data) \<noteq> 0"
    using assms by (simp add: accepted_def)
  ultimately show ?thesis
    by (simp add: fit_transform_def Let_def)
qed

lemma calculate_risk_metrics_accepted:
  assumes "accepted data"
  shows "calculate_risk_metrics lib st data =
     (if data_dir st
      then (st\<lparr>scalar := Some (fit (matrix data)),
               files := (files st)(''data/grouped_risk_metrics.csv'' \<mapsto> groupby_agg (scored data))\<rparr>,
            scored data, Some (groupby_agg (scored data)))
      else (print_error ''calculate_risk_metrics'' (OSError ''data/grouped_risk_metrics.csv'')
              (st\<lparr>scalar := Some (fit (matrix data))\<rparr>),
            scored data, None))"
proof -
  have "check_columns required_columns data = None"
    using assms by (simp add: check_columns_None accepted_def)
  then show ?thesis
    by (simp add: calculate_risk_metrics_def fit_transform_accepted [OF assms] scored_def
        to_csv_def Let_def)
qed


lemma cell_of_update: "cell_of (AList.update c v r) c' = (if c' = c then v else cell_of r c')"
  by (simp add: cell_of_def update_conv')

lemma zip_map_same: "zip rs (map f rs) = map (\<lambda>r. (r, f r)) rs"
  by (induction rs) simp_all

lemma zip3_map: "zip (map f rs) (zip (map g rs) (map h rs)) = map (\<lambda>r. (f r, g r, h r)) rs"
  by (induction rs) simp_all

lemma transform_fit_matrix:
  "transform (fit (matrix data)) (matrix data) =
     map (\<lambda>c. map (zcell data c) (rows data)) feature_columns"
  by (simp add: transform_def fit_def matrix_def feature_columns_def zcell_def floats_def
      column_def)

lemma risk_index_matrix:
  "risk_index (transform (fit (matrix data)) (matrix data)) = map (row_risk data) (rows data)"
  by (simp add: transform_fit_matrix feature_columns_def risk_index_def zip3_map row_risk_def)

lemma rows_scored: "rows (scored data) = map (score_row data) (rows data)"
  by (simp add: scored_def add_risk_columns_def Let_def risk_index_matrix assign_def
      zip_map_same column_def cell_of_update score_row_def)

lemma columns_scored:
  "columns (scored data) =
     (let cs = (if ''risk_index'' \<in> set (columns data) then columns data
                else columns data @ [''risk_index''])
      in if ''risk_category'' \<in> set cs then cs else cs @ [''risk_category''])"
  by (simp add: scored_def add_risk_columns_def Let_def assign_def)

lemma risk_category_Num: "risk_category (Num x) = Cat (thresholds x)"
  by (simp add: cut_def searchsorted_left_def risk_bins_def risk_labels_def thresholds_def)

lemma sum_squares_zero:
  "(\<Sum>v\<leftarrow>xs. (v - m)\<^sup>2) = (0::real) \<Longrightarrow> x \<in> set xs \<Longrightarrow> x = m"
proof (induction xs)
  case Nil
  then show ?case by simp
next
  case (Cons a xs)
  have nn: "0 \<le> (\<Sum>v\<leftarrow>xs. (v - m)\<^sup>2)"
    by (rule sum_list_nonneg) auto
  from Cons.prems(1) have "(a - m)\<^sup>2 + (\<Sum>v\<leftarrow>xs. (v - m)\<^sup>2) = 0" by simp
  with nn have "(a - m)\<^sup>2 = 0 \<and> (\<Sum>v\<leftarrow>xs. (v - m)\<^sup>2) = 0"
    by (simp add: add_nonneg_eq_0_iff)
  then show ?case using Cons.IH Cons.prems(2) by auto
qed

lemma variance_zero_mean:
  assumes "variance xs = 0" "x \<in> set xs"
  shows "x = mean xs"
proof -
  have ne: "xs \<noteq> []" using assms(2) by auto
  let ?sq = "map (\<lambda>x. (x - mean xs)\<^sup>2) xs"
  have "sum_list ?sq = 0"
    using assms(1) ne by (simp add: variance_def mean_def[of ?sq])
  then show ?thesis using assms(2) by (rule sum_squares_zero)
qed

lemma present_set: "Some x \<in> set xs \<Longrightarrow> x \<in> set (present xs)"
  by (induction xs) (auto simp: present_def)

lemma zcell_zscore:
  assumes "r \<in> set (rows data)" "cell_of r c = Num x"
  shows "zcell data c r = Some (zscore (observed data c) x)"
proof -
  have "Some x \<in> set (floats data c)"
    using assms by (force simp: floats_def column_def)
  then have mem: "x \<in> set (observed data c)"
    by (simp add: observed_def present_set)
  then have ne: "observed data c \<noteq> []" by auto
  have m: "nanmean (floats data c) = Some (mean (observed data c))"
    using ne by (simp add: nanmean_def observed_def mean_def Let_def)
  have v: "nanvar (floats data c) = Some (variance (observed data c))"
    using m by (simp add: nanvar_def variance_def observed_def mean_def)
  show ?thesis
  proof (cases "variance (observed data c) = 0")
    case True
    then have "x = mean (observed data c)" using mem by (rule variance_zero_mean)
    then show ?thesis
      using True by (simp add: zcell_def m v scale_of_var_def transform_value_def assms(2) zscore_def)
  next
    case False
    then show ?thesis
      by (simp add: zcell_def m v scale_of_var_def transform_value_def assms(2) zscore_def)
  qed
qed

lemma accepted_ex_table: "accepted ex_table"
  by (simp add: accepted_def ex_table_def mk_frame_def required_columns_def feature_columns_def
      column_def cell_of_def)

lemma accepted_ex_single: "accepted ex_single"
  by (simp add: accepted_def ex_single_def mk_frame_def required_columns_def feature_columns_def
      column_def cell_of_def)

lemma observed_ex_table:
  "observed ex_table ''rendement_estime'' = [3, 1]"
  "observed ex_table ''ph'' = [3, 1]"
  "observed ex_table ''matiere_organique'' = [3, 1]"
  by (simp_all add: observed_def floats_def column_def ex_table_def mk_frame_def cell_of_def
      present_def)

lemma zscore_31: "zscore [3, 1] 3 = 1" "zscore [3, 1] 1 = - 1"
  by (simp_all add: zscore_def variance_def mean_def)

lemma row_risk_ex_table:
  "map (row_risk ex_table) (rows ex_table) = [Num 1, Num (- 1)]"
proof -
  have r: "\<And>r c x. r \<in> set (rows ex_table) \<Longrightarrow> cell_of r c = Num x
            \<Longrightarrow> zcell ex_table c r = Some (zscore (observed ex_table c) x)"
    by (rule zcell_zscore)
  have rs: "rows ex_table = [[(''parcelle_id'', Str ''P001''), (''culture'', Str ''Ble''),
      (''rendement_estime'', Num 3), (''ph'', Num 3), (''matiere_organique'', Num 3)],
     [(''parcelle_id'', Str ''P001''), (''culture'', Str ''Ble''),
      (''rendement_estime'', Num 1), (''ph'', Num 1), (''matiere_organique'', Num 1)]]"
    by (simp add: ex_table_def mk_frame_def)
  show ?thesis
    unfolding rs
    by (simp add: row_risk_def r rs cell_of_def observed_ex_table zscore_31 weighted_def)
qed

lemma calculate_risk_metrics_parts:
  "calculate_risk_metrics lib st data =
     (fst (calculate_risk_metrics lib st data), fst (snd (calculate_risk_metrics lib st data)),
      snd (snd (calculate_risk_metrics lib st data)))"
  by simp

lemma table_after_accepted:
  "accepted data \<Longrightarrow> fst (snd (calculate_risk_metrics lib st data)) = scored data"
  by (simp add: calculate_risk_metrics_accepted)

lemma rows_ex_table:
  "rows ex_table =
     [[(''parcelle_id'', Str ''P001''), (''culture'', Str ''Ble''),
       (''rendement_estime'', Num 3), (''ph'', Num 3), (''matiere_organique'', Num 3)],
      [(''parcelle_id'', Str ''P001''), (''culture'', Str ''Ble''),
       (''rendement_estime'', Num 1), (''ph'', Num 1), (''matiere_organique'', Num 1)]]"
  by (simp add: ex_table_def mk_frame_def)

lemma rows_scored_ex_table:
  "rows (scored ex_table) =
     [[(''parcelle_id'', Str ''P001''), (''culture'', Str ''Ble''),
       (''rendement_estime'', Num 3), (''ph'', Num 3), (''matiere_organique'', Num 3),
       (''risk_index'', Num 1), (''risk_category'', Cat Modere)],
      [(''parcelle_id'', Str ''P001''), (''culture'', Str ''Ble''),
       (''rendement_estime'', Num 1), (''ph'', Num 1), (''matiere_organique'', Num 1),
       (''risk_index'', Num (- 1)), (''risk_category'', Cat Tres_Bas)]]"
proof -
  have "row_risk ex_table (rows ex_table ! 0) = Num 1"
    "row_risk ex_table (rows ex_table ! 1) = Num (- 1)"
    using row_risk_ex_table by (simp_all add: rows_ex_table)
  then show ?thesis
    by (simp add: rows_scored score_row_def rows_ex_table risk_category_Num thresholds_def
        del: risk_category.simps)
qed

lemma rows_scored_ex_single:
  "rows (scored ex_single) =
     [[(''parcelle_id'', Str ''P001''), (''culture'', Str ''Ble''),
       (''rendement_estime'', Num 3), (''ph'', Num 7), (''matiere_organique'', Num 2),
       (''risk_index'', Num 0), (''risk_category'', Cat Bas)]]"
proof -
  have rs: "rows ex_single =
     [[(''parcelle_id'', Str ''P001''), (''culture'', Str ''Ble''),
       (''rendement_estime'', Num 3), (''ph'', Num 7), (''matiere_organique'', Num 2)]]"
    by (simp add: ex_single_def mk_frame_def)
  have "row_risk ex_single (rows ex_single ! 0) = Num 0"
    by (simp add: row_risk_def zcell_def floats_def column_def nanmean_def nanvar_def
        present_def scale_of_var_def transform_value_def rs cell_of_def weighted_def)
  then show ?thesis
    by (simp add: rows_scored score_row_def rs risk_category_Num thresholds_def
        del: risk_category.simps)
qed

lemma key_of_agg_row: "key_of (agg_row f k) = k"
  by (simp add: key_of_def agg_row_def cell_of_def)

lemma key_of_score_row: "key_of (score_row data r) = key_of r"
  by (simp add: key_of_def score_row_def cell_of_update)

lemma has_key_score_row: "has_key (score_row data r) = has_key r"
  by (simp add: has_key_def key_of_score_row)

lemma keys_groupby_agg: "map key_of (rows (groupby_agg f)) = group_keys f"
  by (simp add: groupby_agg_def key_of_agg_row comp_def)

lemma distinct_group_keys: "distinct (group_keys f)"
  by (simp add: group_keys_def)

lemma set_group_keys: "set (group_keys f) = key_of ` {r \<in> set (rows f). has_key r}"
  by (auto simp: group_keys_def)

lemma set_group_keys_scored:
  "set (group_keys (scored data)) = key_of ` {r \<in> set (rows data). has_key r}"
proof -
  have "{r \<in> set (rows (scored data)). has_key r} = score_row data ` {r \<in> set (rows data). has_key r}"
    by (auto simp: rows_scored has_key_score_row)
  then have "key_of ` {r \<in> set (rows (scored data)). has_key r}
      = (key_of \<circ> score_row data) ` {r \<in> set (rows data). has_key r}"
    by (simp add: image_comp)
  also have "key_of \<circ> score_row data = key_of"
    by (rule ext) (simp add: key_of_score_row)
  finally show ?thesis by (simp add: set_group_keys)
qed

lemma mean_cells_mean:
  "mean_cells cs = (if numbers_of cs = [] then NaN else Num (mean (numbers_of cs)))"
  by (simp add: mean_cells_def numbers_of_def mean_def Let_def)

lemma all_levels: "l = Tres_Bas \<or> l = Bas \<or> l = Modere \<or> l = Eleve"
  by (cases l) simp_all

lemma most_frequent_empty: "levels_of cs = [] \<Longrightarrow> most_frequent cs = NaN"
  by (simp add: most_frequent_def mode_def)

lemma mode_counts:
  assumes "levels_of cs \<noteq> []"
  shows "mode cs = filter (\<lambda>l. count_list (levels_of cs) l =
      max (count_list (levels_of cs) Eleve) (max (count_list (levels_of cs) Modere)
        (max (count_list (levels_of cs) Bas) (count_list (levels_of cs) Tres_Bas))))
      [Tres_Bas, Bas, Modere, Eleve]"
  using assms by (simp add: mode_def Let_def risk_labels_def)

lemma most_frequent_lowest:
  assumes "levels_of cs \<noteq> []"
  shows "\<exists>l. most_frequent cs = Cat l
           \<and> (\<forall>l'. count_list (levels_of cs) l' \<le> count_list (levels_of cs) l)
           \<and> (\<forall>l'. count_list (levels_of cs) l' = count_list (levels_of cs) l
                   \<longrightarrow> level_code l \<le> level_code l')"
proof -
  define a where "a = count_list (levels_of cs) Tres_Bas"
  define b where "b = count_list (levels_of cs) Bas"
  define c where "c = count_list (levels_of cs) Modere"
  define d where "d = count_list (levels_of cs) Eleve"
  have cnt: "count_list (levels_of cs) l' =
        (case l' of Tres_Bas \<Rightarrow> a | Bas \<Rightarrow> b | Modere \<Rightarrow> c | Eleve \<Rightarrow> d)" for l'
    by (simp add: a_def b_def c_def d_def split: risk_level.splits)
  have m: "mode cs = filter (\<lambda>l. (case l of Tres_Bas \<Rightarrow> a | Bas \<Rightarrow> b | Modere \<Rightarrow> c | Eleve \<Rightarrow> d) =
      max d (max c (max b a))) [Tres_Bas, Bas, Modere, Eleve]"
    unfolding mode_counts [OF assms] a_def b_def c_def d_def
    by (rule filter_cong) (auto split: risk_level.splits)
  consider (A) "a = max d (max c (max b a))"
    | (B) "a \<noteq> max d (max c (max b a))" "b = max d (max c (max b a))"
    | (C) "a \<noteq> max d (max c (max b a))" "b \<noteq> max d (max c (max b a))" "c = max d (max c (max b a))"
    | (D) "a \<noteq> max d (max c (max b a))" "b \<noteq> max d (max c (max b a))" "c \<noteq> max d (max c (max b a))" "d = max d (max c (max b a))"
    by linarith
  then show ?thesis
  proof cases
    case A
    have "most_frequent cs = Cat Tres_Bas"
      using A by (simp add: most_frequent_def m)
    moreover have "\<forall>l'. count_list (levels_of cs) l' \<le> count_list (levels_of cs) Tres_Bas"
      using A unfolding cnt by (auto split: risk_level.splits)
    ultimately show ?thesis by auto
  next
    case B
    have "most_frequent cs = Cat Bas"
      using B by (simp add: most_frequent_def m)
    moreover have "\<forall>l'. count_list (levels_of cs) l' \<le> count_list (levels_of cs) Bas"
      using B unfolding cnt by (auto split: risk_level.splits)
    moreover have "\<forall>l'. count_list (levels_of cs) l' = count_list (levels_of cs) Bas \<longrightarrow> level_code Bas \<le> level_code l'"
      using B unfolding cnt by (auto split: risk_level.splits)
    ultimately show ?thesis by blast
  next
    case C
    have "most_frequent cs = Cat Modere"
      using C by (simp add: most_frequent_def m)
    moreover have "\<forall>l'. count_list (levels_of cs) l' \<le> count_list (levels_of cs) Modere"
      using C unfolding cnt by (auto split: risk_level.splits)
    moreover have "\<forall>l'. count_list (levels_of cs) l' = count_list (levels_of cs) Modere \<longrightarrow> level_code Modere \<le> level_code l'"
      using C unfolding cnt by (auto split: risk_level.splits)
    ultimately show ?thesis by blast
  next
    case D
    have "most_frequent cs = Cat Eleve"
      using D by (simp add: most_frequent_def m)
    moreover have "\<forall>l'. count_list (levels_of cs) l' \<le> count_list (levels_of cs) Eleve"
      using D unfolding cnt by (auto split: risk_level.splits)
    moreover have "\<forall>l'. count_list (levels_of cs) l' = count_list (levels_of cs) Eleve \<longrightarrow> level_code Eleve \<le> level_code l'"
      using D unfolding cnt by (auto split: risk_level.splits)
    ultimately show ?thesis by blast
  qed
qed

lemma rows_ex_groups:
  "rows ex_groups =
     [[(''parcelle_id'', Str ''P001''), (''culture'', Str ''Ble''),
       (''rendement_estime'', Num 3), (''ph'', Num 3), (''matiere_organique'', Num 3)],
      [(''parcelle_id'', Str ''P001''), (''culture'', Str ''Ble''),
       (''rendement_estime'', Num 1), (''ph'', Num 1), (''matiere_organique'', Num 1)],
      [(''parcelle_id'', Str ''P002''), (''culture'', NaN),
       (''rendement_estime'', NaN), (''ph'', NaN), (''matiere_organique'', NaN)]]"
  by (simp add: ex_groups_def mk_frame_def)

lemma accepted_ex_groups: "accepted ex_groups"
  by (simp add: accepted_def ex_groups_def mk_frame_def required_columns_def feature_columns_def
      column_def cell_of_def)

lemma observed_ex_groups:
  "observed ex_groups ''rendement_estime'' = [3, 1]"
  "observed ex_groups ''ph'' = [3, 1]"
  "observed ex_groups ''matiere_organique'' = [3, 1]"
  by (simp_all add: observed_def floats_def column_def rows_ex_groups cell_of_def present_def)

lemma zcell_missing: "cell_of r c = NaN \<Longrightarrow> zcell data c r = None"
  by (simp add: zcell_def transform_value_def)

lemma row_risk_ex_groups:
  "map (row_risk ex_groups) (rows ex_groups) = [Num 1, Num (- 1), NaN]"
proof -
  have r: "\<And>r c x. r \<in> set (rows ex_groups) \<Longrightarrow> cell_of r c = Num x
            \<Longrightarrow> zcell ex_groups c r = Some (zscore (observed ex_groups c) x)"
    by (rule zcell_zscore)
  show ?thesis
    unfolding rows_ex_groups
    by (simp add: row_risk_def r rows_ex_groups zcell_missing cell_of_def observed_ex_groups
        zscore_31 weighted_def)
qed

lemma rows_scored_ex_groups:
  "rows (scored ex_groups) =
     [[(''parcelle_id'', Str ''P001''), (''culture'', Str ''Ble''),
       (''rendement_estime'', Num 3), (''ph'', Num 3), (''matiere_organique'', Num 3),
       (''risk_index'', Num 1), (''risk_category'', Cat Modere)],
      [(''parcelle_id'', Str ''P001''), (''culture'', Str ''Ble''),
       (''rendement_estime'', Num 1), (''ph'', Num 1), (''matiere_organique'', Num 1),
       (''risk_index'', Num (- 1)), (''risk_category'', Cat Tres_Bas)],
      [(''parcelle_id'', Str ''P002''), (''culture'', NaN),
       (''rendement_estime'', NaN), (''ph'', NaN), (''matiere_organique'', NaN),
       (''risk_index'', NaN), (''risk_category'', NaN)]]"
proof -
  have "row_risk ex_groups (rows ex_groups ! 0) = Num 1"
    "row_risk ex_groups (rows ex_groups ! 1) = Num (- 1)"
    "row_risk ex_groups (rows ex_groups ! 2) = NaN"
    using row_risk_ex_groups by (simp_all add: rows_ex_groups)
  then show ?thesis
    by (simp add: rows_scored score_row_def rows_ex_groups cut_def searchsorted_left_def
        risk_bins_def risk_labels_def)
qed

lemma group_keys_ex_groups: "group_keys (scored ex_groups) = [(Str ''P001'', Str ''Ble'')]"
  by (simp add: group_keys_def rows_scored_ex_groups has_key_def key_of_def cell_of_def)

lemma groupby_agg_ex_groups: "groupby_agg (scored ex_groups) = ex_groups_result"
  by (simp add: groupby_agg_def group_keys_ex_groups agg_row_def group_rows_def
      rows_scored_ex_groups key_of_def cell_of_def mean_cells_def most_frequent_def mode_def
      levels_of_def risk_labels_def ex_groups_result_def mk_frame_def)

lemma returned_ex_groups:
  "snd (snd (calculate_risk_metrics ex_library (init Map.empty True) ex_groups)) = Some ex_groups_result"
  by (simp add: calculate_risk_metrics_accepted accepted_ex_groups groupby_agg_ex_groups init_def)

lemma numeric_cells_length: "numeric_cells lib cs = Inr xs \<Longrightarrow> length xs = length cs"
proof (induction cs arbitrary: xs)
  case Nil
  then show ?case by simp
next
  case (Cons c cs)
  then show ?case by (auto split: sum.splits)
qed

lemma check_array_three:
  assumes "check_array lib [a, b, c] = Inr X"
  shows "\<exists>x0 x1 x2. X = [x0, x1, x2] \<and> length x0 = length a \<and> length x1 = length b
           \<and> length x2 = length c"
  using assms by (auto split: sum.splits dest: numeric_cells_length)

lemma fit_transform_three:
  assumes "fit_transform lib old n [a, b, c] = (sc, Inr N)"
  shows "\<exists>n0 n1 n2. N = [n0, n1, n2] \<and> length n0 = length a \<and> length n1 = length b
           \<and> length n2 = length c"
proof (cases "check_array lib [a, b, c]")
  case (Inl e)
  with assms show ?thesis by (simp add: fit_transform_def)
next
  case (Inr X)
  from check_array_three [OF Inr] obtain x0 x1 x2 where
    X: "X = [x0, x1, x2]" "length x0 = length a" "length x1 = length b" "length x2 = length c"
    by (elim exE conjE)
  from assms Inr have "N = transform (fit X) X"
    by (simp add: fit_transform_def Let_def split: if_splits)
  then show ?thesis
    by (simp add: X transform_def fit_def)
qed

lemma rows_assign:
  "length vs = length (rows f)
     \<Longrightarrow> rows (assign f c vs) = map (\<lambda>i. AList.update c (vs ! i) (rows f ! i)) [0..<length (rows f)]"
  by (auto simp: assign_def intro: nth_equalityI)

lemma add_risk_columns_frame:
  assumes "length n0 = length (rows data)" "length n1 = length (rows data)"
    "length n2 = length (rows data)"
  shows "columns (add_risk_columns data [n0, n1, n2]) =
           columns data @ filter (\<lambda>c. c \<notin> set (columns data)) [''risk_index'', ''risk_category'']"
    and "length (rows (add_risk_columns data [n0, n1, n2])) = length (rows data)"
    and "i < length (rows data) \<Longrightarrow> c \<noteq> ''risk_index'' \<Longrightarrow> c \<noteq> ''risk_category''
           \<Longrightarrow> cell_of (rows (add_risk_columns data [n0, n1, n2]) ! i) c = cell_of (rows data ! i) c"
proof -
  let ?ri = "risk_index [n0, n1, n2]"
  let ?d1 = "assign data ''risk_index'' ?ri"
  let ?rc = "map risk_category (column ?d1 ''risk_index'')"
  have l: "length ?ri = length (rows data)"
    using assms by (simp add: risk_index_def)
  have r1: "rows ?d1 = map (\<lambda>i. AList.update ''risk_index'' (?ri ! i) (rows data ! i))
                         [0..<length (rows data)]"
    using l by (rule rows_assign)
  then have l1: "length (rows ?d1) = length (rows data)" by simp
  have l2: "length ?rc = length (rows ?d1)" by (simp add: column_def)
  have r2: "rows (assign ?d1 ''risk_category'' ?rc)
            = map (\<lambda>i. AList.update ''risk_category'' (?rc ! i) (rows ?d1 ! i))
                [0..<length (rows ?d1)]"
    using l2 by (rule rows_assign)
  have a: "add_risk_columns data [n0, n1, n2] = assign ?d1 ''risk_category'' ?rc"
    by (simp add: add_risk_columns_def Let_def)
  show "columns (add_risk_columns data [n0, n1, n2]) =
           columns data @ filter (\<lambda>c. c \<notin> set (columns data)) [''risk_index'', ''risk_category'']"
    unfolding a by (simp add: assign_def)
  show "length (rows (add_risk_columns data [n0, n1, n2])) = length (rows data)"
    unfolding a r2 by (simp add: l1)
  show "cell_of (rows (add_risk_columns data [n0, n1, n2]) ! i) c = cell_of (rows data ! i) c"
    if "i < length (rows data)" "c \<noteq> ''risk_index''" "c \<noteq> ''risk_category''"
    unfolding a r2 using that by (simp add: l1 cell_of_update) (simp add: r1 cell_of_update)
qed

lemma table_after_call:
  "fst (snd (calculate_risk_metrics lib st data)) = data
   \<or> (\<exists>n0 n1 n2. length n0 = length (rows data) \<and> length n1 = length (rows data)
         \<and> length n2 = length (rows data)
         \<and> fst (snd (calculate_risk_metrics lib st data)) = add_risk_columns data [n0, n1, n2])"
proof (cases "check_columns required_columns data")
  case (Some e)
  then show ?thesis by (simp add: calculate_risk_metrics_def)
next
  case None
  let ?cols = "[column data ''rendement_estime'', column data ''ph'',
                column data ''matiere_organique'']"
  obtain sc out where f: "fit_transform lib (scalar st) (length (rows data)) ?cols = (sc, out)"
    by (cases "fit_transform lib (scalar st) (length (rows data)) ?cols") simp
  show ?thesis
  proof (cases out)
    case (Inl e)
    then show ?thesis
      using f None by (simp add: calculate_risk_metrics_def feature_columns_def)
  next
    case (Inr N)
    from fit_transform_three [OF f [unfolded Inr]] obtain n0 n1 n2 where
      N: "N = [n0, n1, n2]" "length n0 = length (rows data)" "length n1 = length (rows data)"
        "length n2 = length (rows data)"
      by (elim exE conjE) (simp add: column_def)
    have "fst (snd (calculate_risk_metrics lib st data)) = add_risk_columns data [n0, n1, n2]"
      using f None Inr N(1)
      by (simp add: calculate_risk_metrics_def feature_columns_def Let_def split: sum.splits)
    with N(2-4) show ?thesis by blast
  qed
qed

lemma table_after_missing_column:
  assumes "\<not> list_all (\<lambda>c. c \<in> set (columns data)) required_columns"
  shows "fst (snd (calculate_risk_metrics lib st data)) = data"
proof -
  from assms have "check_columns required_columns data \<noteq> None"
    by (simp add: check_columns_None)
  then show ?thesis by (auto simp: calculate_risk_metrics_def)
qed

lemma table_after_no_row:
  assumes "rows data = []"
  shows "fst (snd (calculate_risk_metrics lib st data)) = data"
proof (cases "check_columns required_columns data")
  case (Some e)
  then show ?thesis by (simp add: calculate_risk_metrics_def)
next
  case None
  have "check_array lib (map (column data) feature_columns) = Inr [[], [], []]"
    using assms by (simp add: feature_columns_def column_def)
  then show ?thesis
    using assms None by (simp add: calculate_risk_metrics_def fit_transform_def)
qed

lemma cell_of_score_row:
  "c \<noteq> ''risk_index'' \<Longrightarrow> c \<noteq> ''risk_category'' \<Longrightarrow> cell_of (score_row data r) c = cell_of r c"
  by (simp add: score_row_def cell_of_update)

lemma returned_accepted:
  "accepted data \<Longrightarrow> calculate_risk_metrics lib st data = (st', data', Some g)
     \<Longrightarrow> data' = scored data \<and> g = groupby_agg (scored data)"
  by (auto simp: calculate_risk_metrics_accepted split: if_splits)

lemma cells_agg_row:
  "cell_of (agg_row f k) ''avg_risk_index'' =
     mean_cells (map (\<lambda>r. cell_of r ''risk_index'') (group_rows f k))"
  "cell_of (agg_row f k) ''most_frequent_risk_category'' =
     most_frequent (map (\<lambda>r. cell_of r ''risk_category'') (group_rows f k))"
  by (simp_all add: agg_row_def cell_of_def)

lemma risk_metrics_ex_groups:
  "calculate_risk_metrics ex_library (init Map.empty True) ex_groups =
     (fst (calculate_risk_metrics ex_library (init Map.empty True) ex_groups), scored ex_groups,
      Some ex_groups_result)"
  using returned_ex_groups table_after_accepted [OF accepted_ex_groups, where st = "init Map.empty True" and lib = ex_library]
  by (metis prod.collapse)

text \<open>
  A table that is not accepted is scored all the same when the conversion to floats reads
  its cells: the table \<open>ex_strings\<close> gets its risk columns under a library that reads
  \<^verbatim>\<open>'3'\<close> and \<^verbatim>\<open>'1'\<close> as numbers, and is left as it was under one that does not.
\<close>

lemma rows_ex_strings:
  "rows ex_strings =
     [[(''parcelle_id'', Str ''P001''), (''culture'', Str ''Ble''),
       (''rendement_estime'', Num 3), (''ph'', Str ''3''), (''matiere_organique'', Num 3)],
      [(''parcelle_id'', Str ''P001''), (''culture'', Str ''Ble''),
       (''rendement_estime'', Num 1), (''ph'', Str ''1''), (''matiere_organique'', Num 1)]]"
  by (simp add: ex_strings_def mk_frame_def)

lemma features_ex_strings:
  "map (column ex_strings) feature_columns = [[Num 3, Num 1], [Str ''3'', Str ''1''], [Num 3, Num 1]]"
  by (simp add: feature_columns_def column_def rows_ex_strings cell_of_def)

lemma check_ex_strings: "check_columns required_columns ex_strings = None"
  by (simp add: required_columns_def ex_strings_def mk_frame_def)

lemma fit_transform_ex_strings:
  "snd (fit_transform ex_library_reading old 2 [[Num 3, Num 1], [Str ''3'', Str ''1''], [Num 3, Num 1]])
     = Inr [[Some 1, Some (- 1)], [Some 1, Some (- 1)], [Some 1, Some (- 1)]]"
  by (simp add: fit_transform_def ex_library_reading_def Let_def fit_def transform_def
      nanmean_def nanvar_def present_def scale_of_var_def transform_value_def)

lemma fit_transform_ex_strings_refused:
  "snd (fit_transform ex_library old 2 [[Num 3, Num 1], [Str ''3'', Str ''1''], [Num 3, Num 1]])
     = Inl (ValueError ''could not convert string to float'')"
  by (simp add: fit_transform_def ex_library_def)

lemma table_after_scoring:
  assumes "check_columns required_columns data = None"
    and "snd (fit_transform lib (scalar st) (length (rows data)) (map (column data) feature_columns))
           = Inr N"
  shows "fst (snd (calculate_risk_metrics lib st data)) = add_risk_columns data N"
  using assms
  by (cases "fit_transform lib (scalar st) (length (rows data)) (map (column data) feature_columns)")
     (simp add: calculate_risk_metrics_def Let_def split: sum.splits)

lemma table_after_refusal:
  assumes "snd (fit_transform lib (scalar st) (length (rows data)) (map (column data) feature_columns))
           = Inl e"
  shows "fst (snd (calculate_risk_metrics lib st data)) = data"
  using assms
  by (cases "fit_transform lib (scalar st) (length (rows data)) (map (column data) feature_columns)")
     (simp add: calculate_risk_metrics_def Let_def split: option.splits)

lemma numeric_strings_scored:
  "\<not> accepted ex_strings"
  "column (fst (snd (calculate_risk_metrics ex_library_reading st ex_strings)))
     ''risk_index'' = [Num 1, Num (- 1)]"
  "fst (snd (calculate_risk_metrics ex_library st ex_strings)) = ex_strings"
proof -
  show "\<not> accepted ex_strings"
    by (simp add: accepted_def feature_columns_def column_def rows_ex_strings cell_of_def)
  have l: "length (rows ex_strings) = 2" by (simp add: rows_ex_strings)
  have "fst (snd (calculate_risk_metrics ex_library_reading st ex_strings))
      = add_risk_columns ex_strings [[Some 1, Some (- 1)], [Some 1, Some (- 1)], [Some 1, Some (- 1)]]"
    by (rule table_after_scoring [OF check_ex_strings])
       (simp only: l features_ex_strings fit_transform_ex_strings)
  then show "column (fst (snd (calculate_risk_metrics ex_library_reading st ex_strings)))
     ''risk_index'' = [Num 1, Num (- 1)]"
    by (simp add: add_risk_columns_def risk_index_def weighted_def assign_def column_def
        rows_ex_strings cell_of_def Let_def)
  show "fst (snd (calculate_risk_metrics ex_library st ex_strings)) = ex_strings"
    by (rule table_after_refusal)
       (simp only: l features_ex_strings fit_transform_ex_strings_refused)
qed

section \<open>Properties of the daily resampling\<close>

lemma rows_coerce_dates: "rows (coerce_dates parse w) = map (coerce_row parse) (rows w)"
  by (simp add: coerce_dates_def assign_def column_def zip_map_same coerce_row_def)

lemma columns_coerce_dates:
  "''date'' \<in> set (columns w) \<Longrightarrow> columns (coerce_dates parse w) = columns w"
  by (simp add: coerce_dates_def assign_def)

lemma cell_of_coerce_row: "c \<noteq> ''date'' \<Longrightarrow> cell_of (coerce_row parse r) c = cell_of r c"
  by (simp add: coerce_row_def cell_of_update)

lemma column_coerce_dates:
  "c \<noteq> ''date'' \<Longrightarrow> column (coerce_dates parse w) c = column w c"
  by (simp add: column_def rows_coerce_dates cell_of_coerce_row)

lemma value_columns_coerce_dates:
  "''date'' \<in> set (columns w) \<Longrightarrow> value_columns (coerce_dates parse w) = value_columns w"
  by (simp add: value_columns_def columns_coerce_dates)

lemma numeric_column_coerce_dates:
  "c \<noteq> ''date'' \<Longrightarrow> numeric_column (coerce_dates parse w) c = numeric_column w c"
  by (simp add: numeric_column_def column_coerce_dates)

lemma stamp_column_coerce_dates:
  "c \<noteq> ''date'' \<Longrightarrow> stamp_column (coerce_dates parse w) c = stamp_column w c"
  by (simp add: stamp_column_def column_coerce_dates)

lemma averaged_coerce_dates:
  "list_all (\<lambda>c. numeric_column (coerce_dates parse w) c \<or> stamp_column (coerce_dates parse w) c)
       (value_columns w)
     = list_all (\<lambda>c. numeric_column w c \<or> stamp_column w c) (value_columns w)"
  by (auto simp: list_all_iff value_columns_def numeric_column_coerce_dates
      stamp_column_coerce_dates)

lemma map_of_keyed: "map_of (map (\<lambda>c. (c, g c)) cs) c = (if c \<in> set cs then Some (g c) else None)"
  by (induction cs) auto

lemma cell_of_daily_row_date: "cell_of (daily_row lib f cols d) ''date'' = Date (d * day_ns)"
  by (simp add: daily_row_def cell_of_def)

lemma cell_of_daily_row:
  "c \<noteq> ''date''
     \<Longrightarrow> cell_of (daily_row lib f cols d) c = (if c \<in> set cols then daily_value lib f c d else NaN)"
  by (simp add: daily_row_def cell_of_def map_of_keyed)

lemma daily_value_numeric:
  "numeric_column f c
     \<Longrightarrow> daily_value lib f c d = mean_cells (map (\<lambda>r. cell_of r c) (rows_on f d))"
  by (simp add: daily_value_def)

lemma day_of_daily_row: "day_of (daily_row lib f cols d) = Some d"
  by (simp add: day_of_def cell_of_daily_row_date day_ns_def)

lemma in_map_filter: "d \<in> set (List.map_filter g xs) \<longleftrightarrow> (\<exists>x \<in> set xs. g x = Some d)"
  by (induction xs) (auto split: option.splits)

lemma set_days: "set (days f) = {d. \<exists>r \<in> set (rows f). day_of r = Some d}"
  by (auto simp: days_def in_map_filter)

lemma rows_on_empty: "d \<notin> set (days f) \<Longrightarrow> rows_on f d = []"
  by (auto simp: rows_on_def set_days filter_empty_conv)

lemma mean_cells_Nil: "mean_cells [] = NaN"
  by (simp add: mean_cells_def)

lemma daily_value_empty: "d \<notin> set (days f) \<Longrightarrow> daily_value lib f c d = NaN"
  by (simp add: daily_value_def rows_on_empty mean_cells_Nil mean_stamps_def stamps_of_def)

lemma cell_of_daily_row_empty:
  "c \<noteq> ''date'' \<Longrightarrow> d \<notin> set (days f) \<Longrightarrow> cell_of (daily_row lib f cols d) c = NaN"
  by (simp add: cell_of_daily_row daily_value_empty)

lemma resample_mean_dated:
  assumes "days f \<noteq> []"
  shows "resample_mean lib f =
     (if \<not> drops_other lib
          \<and> \<not> list_all (\<lambda>c. numeric_column f c \<or> stamp_column f c) (value_columns f)
      then Inl (TypeError ''agg function failed'')
      else Inr \<lparr>columns = ''date'' # (if drops_other lib
                                        then filter (numeric_column f) (value_columns f)
                                        else value_columns f),
                rows = map (daily_row lib f (if drops_other lib
                                             then filter (numeric_column f) (value_columns f)
                                             else value_columns f))
                         [Min (set (days f)) .. Max (set (days f))]\<rparr>)"
  using assms by (simp add: resample_mean_def Let_def)

lemma resample_mean_no_row:
  assumes "rows f = []"
  shows "resample_mean lib f =
     Inr \<lparr>columns = ''date'' # (if drops_other lib
                                    then filter (numeric_column f) (value_columns f)
                                    else value_columns f),
          rows = []\<rparr>"
  using assms
  by (simp add: resample_mean_def Let_def days_def numeric_column_def column_def list_all_iff)

lemma filter_unique:
  "distinct (map g xs) \<Longrightarrow> x \<in> set xs \<Longrightarrow> filter (\<lambda>y. g y = g x) xs = [x]"
proof (induction xs)
  case Nil
  then show ?case by simp
next
  case (Cons a xs)
  show ?case
  proof (cases "x = a")
    case True
    have "g y \<noteq> g a" if "y \<in> set xs" for y
      using Cons.prems(1) that by (metis distinct.simps(2) image_eqI list.simps(9) set_map)
    then have "filter (\<lambda>y. g y = g a) xs = []"
      by (simp add: filter_empty_conv)
    then show ?thesis using True by simp
  next
    case False
    then have "x \<in> set xs" using Cons.prems(2) by simp
    moreover have "g a \<noteq> g x" using Cons.prems(1) \<open>x \<in> set xs\<close> by auto
    ultimately show ?thesis using Cons by simp
  qed
qed

lemma map_filter_all_Some:
  "list_all (\<lambda>r. g r \<noteq> None) rs \<Longrightarrow> map Some (List.map_filter g rs) = map g rs"
  by (induction rs) (auto split: option.splits)

lemma days_all_dated:
  "list_all (\<lambda>r. day_of r \<noteq> None) (rows f) \<Longrightarrow> map Some (days f) = map day_of (rows f)"
  unfolding days_def by (rule map_filter_all_Some)

lemma mean_cells_single: "is_numeric c \<Longrightarrow> mean_cells [c] = c"
  by (cases c) (simp_all add: mean_cells_def)

lemma coerce_row_dated:
  "day_of r \<noteq> None \<Longrightarrow> cell_of (coerce_row parse r) c = cell_of r c"
  by (auto simp: coerce_row_def cell_of_update day_of_def to_datetime_def split: cell.splits)

lemma day_of_coerce_row: "day_of r \<noteq> None \<Longrightarrow> day_of (coerce_row parse r) = day_of r"
  by (simp add: day_of_def [of "coerce_row parse r"] coerce_row_dated) (simp add: day_of_def)

lemma rows_coerce_dated:
  assumes "list_all (\<lambda>r. day_of r \<noteq> None) (rows w)"
  shows "map day_of (rows (coerce_dates parse w)) = map day_of (rows w)"
  using assms by (simp add: rows_coerce_dates list_all_iff day_of_coerce_row)

lemma days_coerce_dated:
  assumes "list_all (\<lambda>r. day_of r \<noteq> None) (rows w)"
  shows "days (coerce_dates parse w) = days w"
proof -
  have "List.map_filter day_of (map (coerce_row parse) rs) = List.map_filter day_of rs"
    if "list_all (\<lambda>r. day_of r \<noteq> None) rs" for rs
    using that by (induction rs) (auto simp: day_of_coerce_row split: option.splits)
  then show ?thesis using assms by (simp add: days_def rows_coerce_dates)
qed

lemma one_row_per_day_distinct:
  assumes "one_row_per_day w"
  shows "distinct (map day_of (rows w))"
proof (cases "rows w = []")
  case True
  then show ?thesis by simp
next
  case False
  with assms have s: "sort (days w) = [Min (set (days w)) .. Max (set (days w))]"
    and v: "list_all (\<lambda>r. day_of r \<noteq> None) (rows w)"
    by (simp_all add: one_row_per_day_def)
  have "distinct (sort (days w))" unfolding s by simp
  then have "distinct (days w)" by simp
  then have "distinct (map Some (days w))" by (simp add: distinct_map)
  then show ?thesis by (simp add: days_all_dated [OF v])
qed

lemma one_row_per_day_length:
  assumes "one_row_per_day w" "rows w \<noteq> []"
  shows "length [Min (set (days w)) .. Max (set (days w))] = length (rows w)"
proof -
  from assms have s: "sort (days w) = [Min (set (days w)) .. Max (set (days w))]"
    and v: "list_all (\<lambda>r. day_of r \<noteq> None) (rows w)"
    by (simp_all add: one_row_per_day_def)
  have "length (rows w) = length (map Some (days w))"
    by (simp add: days_all_dated [OF v])
  also have "\<dots> = length (sort (days w))" by simp
  finally show ?thesis by (simp add: s)
qed

lemma one_row_per_day_range:
  assumes "one_row_per_day w" "r \<in> set (rows w)" "day_of r = Some d"
  shows "d \<in> set [Min (set (days w)) .. Max (set (days w))]"
proof -
  from assms have s: "sort (days w) = [Min (set (days w)) .. Max (set (days w))]"
    by (auto simp: one_row_per_day_def)
  have "d \<in> set (days w)" using assms(2,3) by (auto simp: set_days)
  then have "d \<in> set (sort (days w))" by simp
  then show ?thesis by (simp only: s)
qed

lemma rows_coerce_ex_weather:
  "rows (coerce_dates parse ex_weather) =
     [[(''date'', Date 0), (''temperature'', Num 5)],
      [(''date'', Date 176400000000000), (''temperature'', Num 7)],
      [(''date'', NaN), (''temperature'', Num 100)]]"
  by (simp add: rows_coerce_dates coerce_row_def ex_weather_def mk_frame_def cell_of_def
      to_datetime_def)

lemma days_ex_weather: "days (coerce_dates parse ex_weather) = [0, 2]"
  by (simp add: days_def rows_coerce_ex_weather day_of_def cell_of_def day_ns_def)

lemma upto_0_2: "[0..2::int] = [0, 1, 2]"
  by (simp add: upto_rec1)

lemma resample_ex_weather:
  "resample_mean lib (coerce_dates parse ex_weather) = Inr ex_weather_daily"
proof -
  have c: "columns (coerce_dates parse ex_weather) = [''date'', ''temperature'']"
    by (simp add: coerce_dates_def assign_def ex_weather_def mk_frame_def)
  have n: "numeric_column (coerce_dates parse ex_weather) ''temperature''"
    by (simp add: numeric_column_def column_def rows_coerce_ex_weather cell_of_def)
  have d: "days (coerce_dates parse ex_weather) \<noteq> []"
    by (simp add: days_ex_weather)
  show ?thesis
    unfolding resample_mean_dated [OF d]
    by (simp add: value_columns_def c n days_ex_weather upto_0_2 daily_value_def
        daily_row_def rows_on_def rows_coerce_ex_weather day_of_def cell_of_def day_ns_def
        mean_cells_def ex_weather_daily_def mk_frame_def)
qed

lemma daily_ex_weather:
  "weather_data (meteo_data_hourly_to_daily lib (with_weather ex_weather))
     = Some ex_weather_daily"
  by (simp add: meteo_data_hourly_to_daily_def with_weather_def init_def Let_def
      resample_ex_weather) (simp add: ex_weather_def mk_frame_def)

lemma with_weather_simps: "weather_data (with_weather w) = Some w"
  by (simp add: with_weather_def init_def)

lemma rows_coerce_ex_daily:
  "rows (coerce_dates parse ex_daily) =
     [[(''date'', Date 86400000000000), (''temperature'', Num 5), (''station'', Str ''A'')],
      [(''date'', Date 0), (''temperature'', Num 7), (''station'', Str ''B'')]]"
  by (simp add: rows_coerce_dates coerce_row_def ex_daily_def mk_frame_def cell_of_def
      to_datetime_def)

lemma days_ex_daily: "days ex_daily = [1, 0]"
  by (simp add: days_def ex_daily_def mk_frame_def day_of_def cell_of_def day_ns_def)

lemma upto_0_1: "[0..1::int] = [0, 1]"
  by (simp add: upto_rec1)

lemma one_row_per_day_ex_daily: "one_row_per_day ex_daily"
proof -
  have "list_all (\<lambda>r. day_of r \<noteq> None) (rows ex_daily)"
    by (simp add: ex_daily_def mk_frame_def day_of_def cell_of_def)
  then show ?thesis
    by (simp add: one_row_per_day_def days_ex_daily upto_0_1)
qed

lemma drops_ex_library: "\<not> drops_other ex_library" "drops_other ex_library_dropping"
  by (simp_all add: ex_library_def ex_library_dropping_def)

lemma resample_ex_daily:
  "resample_mean ex_library_dropping (coerce_dates parse ex_daily) = Inr ex_daily_result"
proof -
  have c: "columns (coerce_dates parse ex_daily) = [''date'', ''temperature'', ''station'']"
    by (simp add: coerce_dates_def assign_def ex_daily_def mk_frame_def)
  have n: "numeric_column (coerce_dates parse ex_daily) ''temperature''"
    "\<not> numeric_column (coerce_dates parse ex_daily) ''station''"
    by (simp_all add: numeric_column_def column_def rows_coerce_ex_daily cell_of_def)
  have d: "days (coerce_dates parse ex_daily) = [1, 0]"
    by (simp add: days_def rows_coerce_ex_daily day_of_def cell_of_def day_ns_def)
  have ne: "days (coerce_dates parse ex_daily) \<noteq> []"
    by (simp add: d)
  show ?thesis
    unfolding resample_mean_dated [OF ne]
    by (simp add: value_columns_def c n d upto_0_1 drops_ex_library daily_value_def
        daily_row_def rows_on_def rows_coerce_ex_daily day_of_def cell_of_def day_ns_def
        mean_cells_def ex_daily_result_def mk_frame_def)
qed

lemma daily_ex_daily:
  "weather_data (meteo_data_hourly_to_daily ex_library_dropping (with_weather ex_daily))
     = Some ex_daily_result"
  by (simp add: meteo_data_hourly_to_daily_def with_weather_def init_def Let_def
      resample_ex_daily) (simp add: ex_daily_def mk_frame_def)

lemma rows_coerce_ex_stations:
  "rows (coerce_dates parse ex_stations) =
     [[(''date'', Date 0), (''temperature'', Num 5), (''station'', Str ''A'')],
      [(''date'', Date 172800000000000), (''temperature'', Num 7), (''station'', Str ''B'')]]"
  by (simp add: rows_coerce_dates coerce_row_def ex_stations_def mk_frame_def cell_of_def
      to_datetime_def)

lemma coerce_ex_stations: "coerce_dates parse ex_stations = ex_stations"
proof -
  have "columns (coerce_dates parse ex_stations) = columns ex_stations"
    by (simp add: coerce_dates_def assign_def ex_stations_def mk_frame_def)
  moreover have "rows (coerce_dates parse ex_stations) = rows ex_stations"
    unfolding rows_coerce_ex_stations by (simp add: ex_stations_def mk_frame_def)
  ultimately show ?thesis by simp
qed

lemma days_ex_stations: "days (coerce_dates parse ex_stations) = [0, 2]"
  by (simp add: days_def rows_coerce_ex_stations day_of_def cell_of_def day_ns_def)

lemma columns_ex_stations:
  "value_columns (coerce_dates parse ex_stations) = [''temperature'', ''station'']"
  "numeric_column (coerce_dates parse ex_stations) ''temperature''"
  "\<not> numeric_column (coerce_dates parse ex_stations) ''station''"
  "\<not> stamp_column (coerce_dates parse ex_stations) ''station''"
  unfolding coerce_ex_stations
  by (simp_all add: value_columns_def numeric_column_def stamp_column_def
      column_def ex_stations_def mk_frame_def cell_of_def)

lemma resample_ex_stations:
  "resample_mean ex_library (coerce_dates parse ex_stations)
     = Inl (TypeError ''agg function failed'')"
proof -
  have ne: "days (coerce_dates parse ex_stations) \<noteq> []"
    by (simp add: days_ex_stations)
  show ?thesis
    unfolding resample_mean_dated [OF ne]
    by (simp add: columns_ex_stations drops_ex_library)
qed

lemma resample_ex_stations_dropping:
  "resample_mean ex_library_dropping (coerce_dates parse ex_stations) = Inr ex_stations_daily"
proof -
  have ne: "days (coerce_dates parse ex_stations) \<noteq> []"
    by (simp add: days_ex_stations)
  show ?thesis
    unfolding resample_mean_dated [OF ne]
    by (simp add: columns_ex_stations days_ex_stations upto_0_2 drops_ex_library
        daily_value_def daily_row_def rows_on_def rows_coerce_ex_stations day_of_def cell_of_def
        day_ns_def mean_cells_def ex_stations_daily_def mk_frame_def)
qed

lemma daily_ex_stations:
  "meteo_data_hourly_to_daily ex_library (with_weather ex_stations) =
     (with_weather ex_stations)
       \<lparr>printed := [Erreur ''meteo_data_hourly_to_daily'' (TypeError ''agg function failed'')]\<rparr>"
proof -
  have "''date'' \<in> set (columns ex_stations)"
    by (simp add: ex_stations_def mk_frame_def)
  moreover have "resample_mean ex_library ex_stations = Inl (TypeError ''agg function failed'')"
    using resample_ex_stations [of "parse_date ex_library"] by (simp only: coerce_ex_stations)
  ultimately show ?thesis
    by (simp add: meteo_data_hourly_to_daily_def with_weather_def init_def Let_def
        coerce_ex_stations print_error_def)
qed

lemma daily_ex_stations_dropping:
  "weather_data (meteo_data_hourly_to_daily ex_library_dropping (with_weather ex_stations))
     = Some ex_stations_daily"
  by (simp add: meteo_data_hourly_to_daily_def with_weather_def init_def Let_def
      resample_ex_stations_dropping) (simp add: ex_stations_def mk_frame_def)

section \<open>Properties of the as-of join\<close>









lemma is_date_rank: "is_date c \<Longrightarrow> fst (cell_rank c) = 2"
  by (cases c) simp_all

lemma comparable_dates: "list_all is_date cs \<Longrightarrow> comparable cs"
proof -
  assume a: "list_all is_date cs"
  have "set (map (fst \<circ> cell_rank) (filter (\<lambda>c. c \<noteq> NaN) cs)) \<subseteq> {2}"
    using a by (auto simp: list_all_iff is_date_rank)
  then have "set (remdups (map (fst \<circ> cell_rank) (filter (\<lambda>c. c \<noteq> NaN) cs))) \<subseteq> {2}"
    by simp
  moreover have "distinct (remdups (map (fst \<circ> cell_rank) (filter (\<lambda>c. c \<noteq> NaN) cs)))"
    by simp
  ultimately have "length (remdups (map (fst \<circ> cell_rank) (filter (\<lambda>c. c \<noteq> NaN) cs))) \<le> card {2::nat}"
    by (metis card_mono distinct_card finite.emptyI finite.insertI)
  then show ?thesis by (simp add: comparable_def)
qed

lemma sort_values_dates:
  assumes "''date'' \<in> set (columns f)" "list_all is_date (column f ''date'')"
  shows "sort_values f ''date'' = Inr (f\<lparr>rows := by_date (rows f)\<rparr>)"
  using assms by (simp add: sort_values_def comparable_dates by_date_def)

lemma set_by_date: "set (by_date rs) = set rs"
  by (simp add: by_date_def)

lemma length_by_date: "length (by_date rs) = length rs"
  by (simp add: by_date_def)


















text \<open>The tie rule: a monitoring row halfway between two weather rows takes the
  earlier one.\<close>

lemma nearest_tie_backward:
  "nearest [[(''date'', Date 9)], [(''date'', Date 11)]] 10 = Some [(''date'', Date 9)]"
  by (simp add: nearest_def backward_def forward_def stamp_def cell_of_def)


section \<open>Properties of the temporal analysis\<close>

lemma length_dropna_ndvi: "length (dropna_ndvi rs) = length (filter (\<lambda>r. cell_of r ''ndvi'' \<noteq> NaN) rs)"
  by (induction rs) (simp_all add: dropna_ndvi_def)

lemma length_filter_sort_key: "length (filter P (sort_key k xs)) = length (filter P xs)"
  by (simp add: filter_sort)

lemma as_floats_length: "as_floats cs = Inr x \<Longrightarrow> length x = length cs"
proof (induction cs arbitrary: x)
  case Nil
  then show ?case by simp
next
  case (Cons c cs)
  then show ?case by (cases c) (auto split: sum.splits)
qed

lemma ordinals_length: "ordinals cs = Inr x \<Longrightarrow> length x = length cs"
proof (induction cs arbitrary: x)
  case Nil
  then show ?case by simp
next
  case (Cons c cs)
  then show ?case by (auto split: sum.splits)
qed

lemma sort_values_rows:
  "sort_values f c = Inr g \<Longrightarrow> rows g = sort_key (\<lambda>r. cell_rank (cell_of r c)) (rows f)"
  by (auto simp: sort_values_def split: if_splits)

lemma seasonal_decompose_Inr:
  "seasonal_decompose vals = Inr dec \<Longrightarrow> 24 \<le> length vals \<and> length (observed_c dec) = length vals"
  by (auto simp: seasonal_decompose_def split: sum.splits if_splits dest: as_floats_length)

lemma analyse_Inr:
  assumes "analyse rs = Inr r"
  shows "24 \<le> length (filter (\<lambda>r. cell_of r ''ndvi'' \<noteq> NaN) rs)
       \<and> length (filter (\<lambda>r. cell_of r ''ndvi'' \<noteq> NaN) rs) = length rs"
proof -
  from assms obtain dec where
    d: "seasonal_decompose (map snd (dropna_ndvi rs)) = Inr dec"
    by (auto simp: analyse_def Let_def split: sum.splits if_splits)
  from assms d obtain date_ordinal where
    o: "ordinals (map (\<lambda>r. cell_of r ''date'') rs) = Inr date_ordinal"
    by (auto simp: analyse_def Let_def split: sum.splits if_splits)
  from assms d o obtain fit where
    l: "linear_fit (map real_of_int date_ordinal) (observed_c dec) = Inr fit"
    by (auto simp: analyse_def Let_def split: sum.splits if_splits)
  from seasonal_decompose_Inr [OF d]
  have n: "24 \<le> length (filter (\<lambda>r. cell_of r ''ndvi'' \<noteq> NaN) rs)"
    and x: "length (observed_c dec) = length (filter (\<lambda>r. cell_of r ''ndvi'' \<noteq> NaN) rs)"
    by (simp_all add: length_dropna_ndvi)
  from l have "length date_ordinal = length (observed_c dec)"
    by (auto simp: linear_fit_def split: if_splits)
  moreover have "length date_ordinal = length rs"
    using ordinals_length [OF o] by simp
  ultimately show ?thesis using n x by simp
qed

lemma temporal_patterns_Inr:
  assumes "temporal_patterns st pid = Inr r"
  shows "\<exists>features. files st ''data/features.csv'' = Some features
           \<and> 24 \<le> length (observations features pid)
           \<and> length (observations features pid) = length (parcel_rows features pid)"
proof -
  from assms obtain features where f: "read_csv st ''data/features.csv'' [''date''] = Inr features"
    by (auto simp: temporal_patterns_def split: sum.splits)
  then have fl: "files st ''data/features.csv'' = Some features"
    by (auto simp: read_csv_def split: option.splits if_splits)
  let ?pd = "features\<lparr>rows := parcel_rows features pid\<rparr>"
  from assms f obtain sorted_data where s: "sort_values ?pd ''date'' = Inr sorted_data"
    and a: "analyse (rows sorted_data) = Inr r"
    by (auto simp: temporal_patterns_def parcel_rows_def Let_def split: sum.splits if_splits)
  have rs: "rows sorted_data = sort_key (\<lambda>r. cell_rank (cell_of r ''date'')) (parcel_rows features pid)"
    using sort_values_rows [OF s] by simp
  from analyse_Inr [OF a] have "24 \<le> length (observations features pid)"
    "length (observations features pid) = length (parcel_rows features pid)"
    by (simp_all add: rs length_filter_sort_key observations_def)
  with fl show ?thesis by blast
qed

lemma get_temporal_patterns_None:
  assumes "files st ''data/features.csv'' = Some features"
    and "length (observations features pid) < 24
         \<or> length (observations features pid) \<noteq> length (parcel_rows features pid)"
  shows "snd (get_temporal_patterns st pid) = None"
proof (cases "temporal_patterns st pid")
  case (Inl e)
  then show ?thesis by (simp add: get_temporal_patterns_def)
next
  case (Inr r)
  from temporal_patterns_Inr [OF Inr] assms show ?thesis by auto
qed

lemma temporal_patterns_dated:
  assumes "files st ''data/features.csv'' = Some features"
    and "''date'' \<in> set (columns features)" and "''parcelle_id'' \<in> set (columns features)"
    and "''ndvi'' \<in> set (columns features)"
    and "parcel_rows features pid \<noteq> []"
    and "\<forall>r \<in> set (parcel_rows features pid). is_date (cell_of r ''date'')"
  shows "temporal_patterns st pid = analyse (by_date (parcel_rows features pid))"
proof -
  let ?pd = "features\<lparr>rows := parcel_rows features pid\<rparr>"
  have r: "read_csv st ''data/features.csv'' [''date''] = Inr features"
    using assms(1,2) by (simp add: read_csv_def)
  have "list_all is_date (column ?pd ''date'')"
    using assms(6) by (simp add: column_def list_all_iff)
  moreover have "''date'' \<in> set (columns ?pd)" using assms(2) by simp
  ultimately have s: "sort_values ?pd ''date'' = Inr (?pd\<lparr>rows := by_date (rows ?pd)\<rparr>)"
    by (rule sort_values_dates [rotated])
  show ?thesis
    using assms(3-5) s
    by (simp add: temporal_patterns_def r Let_def parcel_rows_def)
qed

lemma missing_ndvi_returns_none:
  assumes "files st ''data/features.csv'' = Some features"
    and "r \<in> set (parcel_rows features pid)" and "cell_of r ''ndvi'' = NaN"
  shows "snd (get_temporal_patterns st pid) = None"
proof -
  have "length (observations features pid) < length (parcel_rows features pid)"
    unfolding observations_def using assms(2) by (rule length_filter_less) (simp add: assms(3))
  then show ?thesis using assms(1) by (auto intro: get_temporal_patterns_None)
qed

lemma dropna_ndvi_numeric:
  "list_all (\<lambda>r. cell_of r ''ndvi'' \<noteq> NaN) rs
     \<Longrightarrow> dropna_ndvi rs = map (\<lambda>r. (cell_of r ''date'', cell_of r ''ndvi'')) rs"
  by (induction rs) (simp_all add: dropna_ndvi_def)

lemma as_floats_Num:
  "list_all (\<lambda>c. \<exists>x. c = Num x) cs \<Longrightarrow> \<exists>x. as_floats cs = Inr x \<and> length x = length cs"
  by (induction cs) auto

lemma series_numeric:
  assumes "\<forall>r \<in> set rs. \<exists>x. cell_of r ''ndvi'' = Num x"
  shows "dropna_ndvi rs = map (\<lambda>r. (cell_of r ''date'', cell_of r ''ndvi'')) rs"
    and "\<exists>x. as_floats (map snd (dropna_ndvi rs)) = Inr x \<and> length x = length rs"
proof -
  have nn: "list_all (\<lambda>r. cell_of r ''ndvi'' \<noteq> NaN) rs"
    using assms by (auto simp: list_all_iff)
  show d: "dropna_ndvi rs = map (\<lambda>r. (cell_of r ''date'', cell_of r ''ndvi'')) rs"
    by (rule dropna_ndvi_numeric [OF nn])
  have "list_all (\<lambda>c. \<exists>x. c = Num x) (map snd (dropna_ndvi rs))"
    using assms by (simp add: d list_all_iff)
  from as_floats_Num [OF this] show "\<exists>x. as_floats (map snd (dropna_ndvi rs)) = Inr x \<and> length x = length rs"
    by (simp add: d)
qed

lemma analyse_short:
  assumes "\<forall>r \<in> set rs. \<exists>x. cell_of r ''ndvi'' = Num x" "12 \<le> length rs" "length rs < 24"
  shows "analyse rs = Inl (ValueError ''x must have 2 complete cycles requires 24 observations'')"
proof -
  from series_numeric [OF assms(1)] obtain x where
    d: "dropna_ndvi rs = map (\<lambda>r. (cell_of r ''date'', cell_of r ''ndvi'')) rs"
    and x: "as_floats (map snd (dropna_ndvi rs)) = Inr x" "length x = length rs"
    by blast
  have "length (dropna_ndvi rs) = length rs" by (simp add: d)
  moreover have "seasonal_decompose (map snd (dropna_ndvi rs)) =
      Inl (ValueError ''x must have 2 complete cycles requires 24 observations'')"
    using x assms(3) by (simp add: seasonal_decompose_def)
  ultimately show ?thesis using assms(2) by (simp add: analyse_def Let_def)
qed

lemma rows_ex_twelve:
  "rows ex_twelve = map (\<lambda>i. [(''parcelle_id'', Str ''P001''), (''date'', Date (int i * day_ns)),
                        (''ndvi'', Num (1 / 2))]) [0 ..< 12]"
  by (simp add: ex_twelve_def)

lemma cells_ex_twelve:
  assumes "r \<in> set (rows ex_twelve)"
  shows "cell_of r ''parcelle_id'' = Str ''P001''" "is_date (cell_of r ''date'')"
    "cell_of r ''ndvi'' = Num (1 / 2)"
  using assms by (auto simp: rows_ex_twelve cell_of_def)

lemma parcel_rows_ex_twelve: "parcel_rows ex_twelve (Str ''P001'') = rows ex_twelve"
  by (simp add: parcel_rows_def filter_id_conv cells_ex_twelve)

lemma length_rows_ex_twelve: "length (rows ex_twelve) = 12"
  by (simp add: rows_ex_twelve)

lemma observations_ex_twelve: "observations ex_twelve (Str ''P001'') = rows ex_twelve"
  by (simp add: observations_def parcel_rows_ex_twelve filter_id_conv cells_ex_twelve)

text \<open>What the method does deliver: with at least 24 rows of the parcel, all of them with
  a date and an NDVI value, it returns the three series, none of them empty, indexed by
  dates of the parcel's rows.\<close>

lemma ordinals_dates:
  "list_all is_date cs \<Longrightarrow> \<exists>os. ordinals cs = Inr os \<and> length os = length cs"
proof (induction cs)
  case Nil
  then show ?case by simp
next
  case (Cons c cs)
  then show ?case by (cases c) auto
qed

lemma set_dropna: "set (dropna idx vs) = {(i, y). (i, Some y) \<in> set (zip idx vs)}"
proof -
  have "set (concat (map (\<lambda>(i, v). case v of Some y \<Rightarrow> [(i, y)] | None \<Rightarrow> []) ps))
      = {(i, y). (i, Some y) \<in> set ps}" for ps :: "(cell \<times> real option) list"
    by (induction ps) (auto split: option.splits)
  then show ?thesis by (simp add: dropna_def)
qed

lemma dropna_index: "fst ` set (dropna idx vs) \<subseteq> set idx"
  by (auto simp: set_dropna dest: set_zip_leftD)

lemma dropna_nonempty:
  assumes "i < length idx" "i < length vs" "vs ! i = Some y"
  shows "dropna idx vs \<noteq> []"
proof -
  have "(idx ! i, Some y) \<in> set (zip idx vs)"
    using assms by (auto simp: set_zip)
  then have "(idx ! i, y) \<in> set (dropna idx vs)" by (simp add: set_dropna)
  then show ?thesis by auto
qed

lemma trend_component_6:
  "24 \<le> length x \<Longrightarrow> length (trend_component x) = length x \<and> trend_component x ! 6 = Some (centred12 x 6)"
  by (simp add: trend_component_def)

lemma resid_component_6:
  assumes "24 \<le> length x"
  shows "length (resid_component x) = length x
       \<and> (\<exists>y. resid_component x ! 6 = Some y)"
proof -
  have lt: "length (trend_component x) = length x" by (simp add: trend_component_def)
  have ld: "length (detrended x) = length x" by (simp add: detrended_def lt)
  have ls: "length (seasonal_component x) = length x" by (simp add: seasonal_component_def Let_def)
  have "detrended x ! 6 = Some (x ! 6 - centred12 x 6)"
    using assms trend_component_6 [OF assms] by (simp add: detrended_def lt)
  then show ?thesis
    using assms by (simp add: resid_component_def ld ls)
qed

lemma linear_fit_Inr: "length X = length y \<Longrightarrow> \<exists>fitted. linear_fit X y = Inr fitted"
  by (simp add: linear_fit_def Let_def)

lemma analyse_steps:
  assumes "\<not> length (dropna_ndvi rs) < 12"
    and "seasonal_decompose (map snd (dropna_ndvi rs)) = Inr dec"
    and "ordinals (map (\<lambda>r. cell_of r ''date'') rs) = Inr os"
    and "linear_fit (map real_of_int os) (observed_c dec) = Inr fitted"
  shows "analyse rs =
     Inr (\<lparr>ndvi_trend = dropna (map fst (dropna_ndvi rs)) (trend_c dec),
           ndvi_seasonal = zip (map fst (dropna_ndvi rs)) (seasonal_c dec),
           ndvi_residual = dropna (map fst (dropna_ndvi rs)) (resid_c dec),
           ndvi_moving_avg = moving_avg (map fst (dropna_ndvi rs)) (observed_c dec),
           mean_ndvi = mean (observed_c dec), std_ndvi = std (observed_c dec),
           min_ndvi = Min (set (observed_c dec)), max_ndvi = Max (set (observed_c dec))\<rparr>,
          \<lparr>pente = fst fitted, intercept = snd fitted,
           variation_moyenne =
             (if mean (observed_c dec) \<noteq> 0 then fst fitted / mean (observed_c dec) else 0)\<rparr>)"
  using assms by (simp add: analyse_def Let_def case_prod_beta)

lemma analyse_complete:
  assumes "\<forall>r \<in> set rs. is_date (cell_of r ''date'')"
    and "\<forall>r \<in> set rs. \<exists>x. cell_of r ''ndvi'' = Num x"
    and "24 \<le> length rs"
  shows "\<exists>h t. analyse rs = Inr (h, t)
           \<and> ndvi_trend h \<noteq> [] \<and> ndvi_seasonal h \<noteq> [] \<and> ndvi_residual h \<noteq> []
           \<and> fst ` set (ndvi_trend h) \<subseteq> (\<lambda>r. cell_of r ''date'') ` set rs
           \<and> fst ` set (ndvi_seasonal h) \<subseteq> (\<lambda>r. cell_of r ''date'') ` set rs
           \<and> fst ` set (ndvi_residual h) \<subseteq> (\<lambda>r. cell_of r ''date'') ` set rs"
proof -
  define idx where "idx = map (\<lambda>r. cell_of r ''date'') rs"
  from series_numeric [OF assms(2)] obtain x where
    d: "dropna_ndvi rs = map (\<lambda>r. (cell_of r ''date'', cell_of r ''ndvi'')) rs"
    and x: "as_floats (map snd (dropna_ndvi rs)) = Inr x" "length x = length rs"
    by blast
  have i: "map fst (dropna_ndvi rs) = idx" by (simp add: d comp_def idx_def)
  have n: "24 \<le> length x" using x(2) assms(3) by simp
  define dec where "dec = \<lparr>observed_c = x, trend_c = trend_component x,
                    seasonal_c = seasonal_component x, resid_c = resid_component x\<rparr>"
  have o: "observed_c dec = x" "trend_c dec = trend_component x"
    "seasonal_c dec = seasonal_component x" "resid_c dec = resid_component x"
    by (simp_all add: dec_def)
  have dec: "seasonal_decompose (map snd (dropna_ndvi rs)) = Inr dec"
    using x n by (simp add: seasonal_decompose_def dec_def)
  have "list_all is_date idx" using assms(1) by (simp add: list_all_iff idx_def)
  from ordinals_dates [OF this] obtain os where
    os: "ordinals (map (\<lambda>r. cell_of r ''date'') rs) = Inr os" "length os = length rs"
    by (auto simp: idx_def)
  have "length (map real_of_int os) = length (observed_c dec)"
    using os(2) x(2) by (simp add: o)
  from linear_fit_Inr [OF this] obtain fitted where
    fitted: "linear_fit (map real_of_int os) (observed_c dec) = Inr fitted"
    by blast
  have len: "\<not> length (dropna_ndvi rs) < 12" using assms(3) by (simp add: d)
  note a = analyse_steps [OF len dec os(1) fitted, unfolded i o]
  define h where "h = fst (case analyse rs of Inr r \<Rightarrow> r)"
  have hs: "ndvi_trend h = dropna idx (trend_component x)"
    "ndvi_seasonal h = zip idx (seasonal_component x)"
    "ndvi_residual h = dropna idx (resid_component x)"
    by (simp_all add: h_def a)
  have ex: "\<exists>t. analyse rs = Inr (h, t)"
    by (simp add: h_def a)
  have li: "6 < length idx" using assms(3) by (simp add: idx_def)
  have 1: "ndvi_trend h \<noteq> []"
    unfolding hs using trend_component_6 [OF n] li n by (intro dropna_nonempty [of 6]) simp_all
  obtain y where "resid_component x ! 6 = Some y" "length (resid_component x) = length x"
    using resid_component_6 [OF n] by blast
  then have 3: "ndvi_residual h \<noteq> []"
    unfolding hs using li n by (intro dropna_nonempty [of 6]) simp_all
  have "length (zip idx (seasonal_component x)) = length rs"
    by (simp add: seasonal_component_def Let_def x(2) idx_def)
  then have 2: "ndvi_seasonal h \<noteq> []"
    unfolding hs using assms(3) by auto
  have s: "set idx = (\<lambda>r. cell_of r ''date'') ` set rs" by (simp add: idx_def)
  have 4: "fst ` set (ndvi_trend h) \<subseteq> (\<lambda>r. cell_of r ''date'') ` set rs"
    unfolding hs s [symmetric] by (rule dropna_index)
  have 6: "fst ` set (ndvi_residual h) \<subseteq> (\<lambda>r. cell_of r ''date'') ` set rs"
    unfolding hs s [symmetric] by (rule dropna_index)
  have 5: "fst ` set (ndvi_seasonal h) \<subseteq> (\<lambda>r. cell_of r ''date'') ` set rs"
    unfolding hs s [symmetric] by (auto dest: set_zip_leftD)
  from ex 1 2 3 4 5 6 show ?thesis by blast
qed

lemma get_temporal_patterns_complete:
  assumes "files st ''data/features.csv'' = Some features"
    and "''date'' \<in> set (columns features)" and "''parcelle_id'' \<in> set (columns features)"
    and "''ndvi'' \<in> set (columns features)"
    and "\<forall>r \<in> set (parcel_rows features pid). is_date (cell_of r ''date'')"
    and "\<forall>r \<in> set (parcel_rows features pid). \<exists>x. cell_of r ''ndvi'' = Num x"
    and "24 \<le> length (parcel_rows features pid)"
  shows "\<exists>h t. snd (get_temporal_patterns st pid) = Some (h, t)
           \<and> ndvi_trend h \<noteq> [] \<and> ndvi_seasonal h \<noteq> [] \<and> ndvi_residual h \<noteq> []
           \<and> fst ` set (ndvi_trend h) \<subseteq> (\<lambda>r. cell_of r ''date'') ` set (parcel_rows features pid)
           \<and> fst ` set (ndvi_seasonal h) \<subseteq> (\<lambda>r. cell_of r ''date'') ` set (parcel_rows features pid)
           \<and> fst ` set (ndvi_residual h) \<subseteq> (\<lambda>r. cell_of r ''date'') ` set (parcel_rows features pid)"
proof -
  define rs where "rs = by_date (parcel_rows features pid)"
  have ne: "parcel_rows features pid \<noteq> []" using assms(7) by auto
  have t: "temporal_patterns st pid = analyse rs"
    unfolding rs_def by (rule temporal_patterns_dated [OF assms(1-4) ne assms(5)])
  have s: "set rs = set (parcel_rows features pid)" by (simp add: rs_def set_by_date)
  have 1: "\<forall>r \<in> set rs. is_date (cell_of r ''date'')"
    unfolding s by (rule assms(5))
  have 2: "\<forall>r \<in> set rs. \<exists>x. cell_of r ''ndvi'' = Num x"
    unfolding s by (rule assms(6))
  have 3: "24 \<le> length rs"
    using assms(7) by (simp add: rs_def length_by_date)
  obtain h tr where a: "analyse rs = Inr (h, tr)"
    and p: "ndvi_trend h \<noteq> []" "ndvi_seasonal h \<noteq> []" "ndvi_residual h \<noteq> []"
      "fst ` set (ndvi_trend h) \<subseteq> (\<lambda>r. cell_of r ''date'') ` set rs"
      "fst ` set (ndvi_seasonal h) \<subseteq> (\<lambda>r. cell_of r ''date'') ` set rs"
      "fst ` set (ndvi_residual h) \<subseteq> (\<lambda>r. cell_of r ''date'') ` set rs"
    using analyse_complete [OF 1 2 3] by (elim exE conjE) (rule that)
  have g: "snd (get_temporal_patterns st pid) = Some (h, tr)"
    by (simp add: get_temporal_patterns_def t a)
  show ?thesis
    using g p unfolding s by (intro exI [of _ h] exI [of _ tr] conjI)
qed

section \<open>Claims about the risk scorer\<close>

text \<open>
  C6. For every table given to \<^verbatim>\<open>calculate_risk_metrics\<close> that has the columns
  \<open>parcelle_id\<close>, \<open>culture\<close> and \<open>rendement_estime\<close> but lacks the column \<open>ph\<close>, the
  method raises the missing-column error that names \<open>ph\<close>, the first absent column in
  check order; the error is caught and printed, the caller's table is left as it was
  and the method returns \<^verbatim>\<open>None\<close> instead of an aggregated table.
\<close>

theorem missing_ph_returns_none:
  assumes "''parcelle_id'' \<in> set (columns data)"
    and "''culture'' \<in> set (columns data)"
    and "''rendement_estime'' \<in> set (columns data)"
    and "''ph'' \<notin> set (columns data)"
  shows "check_columns required_columns data = Some (KeyError ''Colonne requise manquante : ph'')
       \<and> calculate_risk_metrics lib st data =
           (st\<lparr>printed := printed st @
                  [Erreur ''calculate_risk_metrics''
                     (KeyError ''Colonne requise manquante : ph'')]\<rparr>,
            data, None)"
proof -
  have "check_columns required_columns data = Some (KeyError ''Colonne requise manquante : ph'')"
    using assms by (simp add: required_columns_def)
  then show ?thesis
    by (simp add: calculate_risk_metrics_def print_error_def)
qed

theorem missing_ph_returns_none_witness:
  "snd (snd (calculate_risk_metrics ex_library (init Map.empty True) ex_no_ph)) = None
   \<and> printed (fst (calculate_risk_metrics ex_library (init Map.empty True) ex_no_ph)) =
       [Erreur ''calculate_risk_metrics'' (KeyError ''Colonne requise manquante : ph'')]"
  using missing_ph_returns_none [where data = ex_no_ph and st = "init Map.empty True" and lib = ex_library]
  by (simp add: ex_no_ph_def mk_frame_def init_def)

text \<open>
  C3. For every accepted table and whatever the scaler held before the call, the
  \<open>risk_index\<close> the method writes into row \<open>i\<close> is
  \<open>0.5 * z(rendement_estime) + 0.3 * z(ph) + 0.2 * z(matiere_organique)\<close>, where \<open>z\<close> is the
  standard score with respect to the mean and the population variance of the numbers
  observed in that column of the same input table. (Floats are idealised as reals.)
\<close>

theorem risk_index_weighted_zscores:
  assumes "accepted data"
    and "calculate_risk_metrics lib st data = (st', data', res)"
    and "i < length (rows data)"
    and "cell_of (rows data ! i) ''rendement_estime'' = Num y"
    and "cell_of (rows data ! i) ''ph'' = Num p"
    and "cell_of (rows data ! i) ''matiere_organique'' = Num m"
  shows "cell_of (rows data' ! i) ''risk_index'' =
           Num (0.5 * zscore (observed data ''rendement_estime'') y
              + 0.3 * zscore (observed data ''ph'') p
              + 0.2 * zscore (observed data ''matiere_organique'') m)"
proof -
  have d: "data' = scored data"
    using assms(1,2) by (simp add: calculate_risk_metrics_accepted split: if_splits)
  have r: "rows data ! i \<in> set (rows data)"
    using assms(3) by simp
  have "cell_of (rows data' ! i) ''risk_index'' = row_risk data (rows data ! i)"
    using assms(3) by (simp add: d rows_scored score_row_def cell_of_update)
  then show ?thesis
    by (simp add: row_risk_def zcell_zscore [OF r] assms(4-6) weighted_def)
qed

theorem risk_index_weighted_zscores_witness:
  "accepted ex_table \<and>
   cell_of (rows (fst (snd (calculate_risk_metrics ex_library (init Map.empty True) ex_table))) ! 0)
     ''risk_index'' = Num 1"
proof -
  have "cell_of (rows (fst (snd (calculate_risk_metrics ex_library (init Map.empty True) ex_table))) ! 0)
     ''risk_index'' = Num (0.5 * zscore (observed ex_table ''rendement_estime'') 3
              + 0.3 * zscore (observed ex_table ''ph'') 3
              + 0.2 * zscore (observed ex_table ''matiere_organique'') 3)"
    by (rule risk_index_weighted_zscores [OF accepted_ex_table calculate_risk_metrics_parts])
       (simp_all add: rows_ex_table cell_of_def)
  then show ?thesis
    by (simp add: accepted_ex_table observed_ex_table zscore_31)
qed

text \<open>
  C2. For every row that \<^verbatim>\<open>calculate_risk_metrics\<close> has processed, the risk category
  follows from the risk index \<open>x\<close> by fixed right-closed thresholds: \<open>x \<le> -1\<close> gives the
  lowest category, \<open>-1 < x \<le> 0\<close> the second, \<open>0 < x \<le> 1\<close> the third and \<open>x > 1\<close> the
  highest; so \<open>x = 0\<close> falls into the second and \<open>x = 1\<close> into the third.
\<close>

theorem risk_category_thresholds:
  assumes "accepted data"
    and "calculate_risk_metrics lib st data = (st', data', res)"
    and "r \<in> set (rows data')"
    and "cell_of r ''risk_index'' = Num x"
  shows "cell_of r ''risk_category'' =
           Cat (if x \<le> - 1 then Tres_Bas else if x \<le> 0 then Bas
                else if x \<le> 1 then Modere else Eleve)"
proof -
  have d: "data' = scored data"
    using assms(1,2) by (simp add: calculate_risk_metrics_accepted split: if_splits)
  then obtain r0 where r0: "r = score_row data r0"
    using assms(3) by (auto simp: rows_scored)
  have "row_risk data r0 = Num x"
    using assms(4) by (simp add: r0 score_row_def cell_of_update)
  then have "cell_of r ''risk_category'' = risk_category (Num x)"
    by (simp add: r0 score_row_def cell_of_update)
  then show ?thesis
    by (simp add: risk_category_Num thresholds_def del: risk_category.simps)
qed

theorem risk_category_thresholds_witness:
  "cell_of (rows (fst (snd (calculate_risk_metrics ex_library (init Map.empty True) ex_table))) ! 0)
     ''risk_index'' = Num 1
   \<and> cell_of (rows (fst (snd (calculate_risk_metrics ex_library (init Map.empty True) ex_table))) ! 0)
     ''risk_category'' = Cat Modere
   \<and> cell_of (rows (fst (snd (calculate_risk_metrics ex_library (init Map.empty True) ex_single))) ! 0)
     ''risk_index'' = Num 0
   \<and> cell_of (rows (fst (snd (calculate_risk_metrics ex_library (init Map.empty True) ex_single))) ! 0)
     ''risk_category'' = Cat Bas"
proof -
  let ?t = "fst (snd (calculate_risk_metrics ex_library (init Map.empty True) ex_table))"
  let ?s = "fst (snd (calculate_risk_metrics ex_library (init Map.empty True) ex_single))"
  have t: "rows ?t = rows (scored ex_table)" and s: "rows ?s = rows (scored ex_single)"
    by (simp_all add: table_after_accepted accepted_ex_table accepted_ex_single)
  have it: "cell_of (rows ?t ! 0) ''risk_index'' = Num 1"
    by (simp add: t rows_scored_ex_table cell_of_def)
  have "rows ?t ! 0 \<in> set (rows ?t)"
    by (simp add: t rows_scored_ex_table)
  from risk_category_thresholds [OF accepted_ex_table calculate_risk_metrics_parts this it]
  have ct: "cell_of (rows ?t ! 0) ''risk_category'' = Cat Modere"
    by simp
  have is': "cell_of (rows ?s ! 0) ''risk_index'' = Num 0"
    by (simp add: s rows_scored_ex_single cell_of_def)
  have "rows ?s ! 0 \<in> set (rows ?s)"
    by (simp add: s rows_scored_ex_single)
  from risk_category_thresholds [OF accepted_ex_single calculate_risk_metrics_parts this is']
  have "cell_of (rows ?s ! 0) ''risk_category'' = Cat Bas"
    by simp
  with it ct is' show ?thesis by simp
qed

text \<open>
  C7 (as amended). The table returned by \<^verbatim>\<open>calculate_risk_metrics\<close> has exactly one
  row for every distinct pair (\<open>parcelle_id\<close>, \<open>culture\<close>) of the input rows in which
  neither key is missing. In the row of a pair, \<open>avg_risk_index\<close> is the mean of the risk
  indices of the pair's rows that are not missing (missing when there is none), and
  \<open>most_frequent_risk_category\<close> is the category that occurs most often among them; when
  several categories are tied it is the lowest of them in the order of the labels, and
  it is missing when the pair's rows have no category.
\<close>

theorem risk_table_groups:
  assumes "accepted data"
    and "calculate_risk_metrics lib st data = (st', data', Some g)"
  shows "distinct (map key_of (rows g))
       \<and> set (map key_of (rows g)) = key_of ` {r \<in> set (rows data). has_key r}
       \<and> (\<forall>row \<in> set (rows g).
            (let xs = numbers_of (map (\<lambda>r. cell_of r ''risk_index'')
                        (group_rows data' (key_of row)))
             in cell_of row ''avg_risk_index'' = (if xs = [] then NaN else Num (mean xs)))
          \<and> (let ls = levels_of (map (\<lambda>r. cell_of r ''risk_category'')
                        (group_rows data' (key_of row)))
             in if ls = [] then cell_of row ''most_frequent_risk_category'' = NaN
                else \<exists>l. cell_of row ''most_frequent_risk_category'' = Cat l
                       \<and> (\<forall>l'. count_list ls l' \<le> count_list ls l)
                       \<and> (\<forall>l'. count_list ls l' = count_list ls l
                               \<longrightarrow> level_code l \<le> level_code l')))"
proof -
  from assms have d: "data' = scored data" and g: "g = groupby_agg (scored data)"
    by (simp_all add: returned_accepted)
  have keys: "map key_of (rows g) = group_keys (scored data)"
    by (simp add: g keys_groupby_agg)
  have "distinct (map key_of (rows g))"
    by (simp add: keys distinct_group_keys)
  moreover have "set (map key_of (rows g)) = key_of ` {r \<in> set (rows data). has_key r}"
    unfolding keys by (rule set_group_keys_scored)
  moreover have "(let xs = numbers_of (map (\<lambda>r. cell_of r ''risk_index'')
                        (group_rows data' (key_of row)))
             in cell_of row ''avg_risk_index'' = (if xs = [] then NaN else Num (mean xs)))
          \<and> (let ls = levels_of (map (\<lambda>r. cell_of r ''risk_category'')
                        (group_rows data' (key_of row)))
             in if ls = [] then cell_of row ''most_frequent_risk_category'' = NaN
                else \<exists>l. cell_of row ''most_frequent_risk_category'' = Cat l
                       \<and> (\<forall>l'. count_list ls l' \<le> count_list ls l)
                       \<and> (\<forall>l'. count_list ls l' = count_list ls l
                               \<longrightarrow> level_code l \<le> level_code l'))"
    if "row \<in> set (rows g)" for row
  proof -
    from that obtain k where row: "row = agg_row data' k"
      by (auto simp: g d groupby_agg_def)
    have k: "key_of row = k" by (simp add: row key_of_agg_row)
    show ?thesis
      unfolding k Let_def
      using most_frequent_lowest [of "map (\<lambda>r. cell_of r ''risk_category'') (group_rows data' k)"]
      by (simp add: row cells_agg_row mean_cells_mean most_frequent_empty)
  qed
  ultimately show ?thesis by blast
qed

theorem risk_table_groups_witness:
  "accepted ex_groups
   \<and> snd (snd (calculate_risk_metrics ex_library (init Map.empty True) ex_groups)) = Some ex_groups_result
   \<and> map key_of (rows ex_groups_result) = [(Str ''P001'', Str ''Ble'')]
   \<and> key_of ` {r \<in> set (rows ex_groups). has_key r} = {(Str ''P001'', Str ''Ble'')}
   \<and> column ex_groups_result ''avg_risk_index'' = [Num 0]
   \<and> column ex_groups_result ''most_frequent_risk_category'' = [Cat Tres_Bas]"
proof -
  have k: "map key_of (rows ex_groups_result) = [(Str ''P001'', Str ''Ble'')]"
    by (simp add: ex_groups_result_def mk_frame_def key_of_def cell_of_def)
  have c: "column ex_groups_result ''avg_risk_index'' = [Num 0]"
    "column ex_groups_result ''most_frequent_risk_category'' = [Cat Tres_Bas]"
    by (simp_all add: column_def ex_groups_result_def mk_frame_def cell_of_def)
  from risk_table_groups [OF accepted_ex_groups risk_metrics_ex_groups]
  have "set (map key_of (rows ex_groups_result)) = key_of ` {r \<in> set (rows ex_groups). has_key r}"
    by blast
  then have "key_of ` {r \<in> set (rows ex_groups). has_key r} = {(Str ''P001'', Str ''Ble'')}"
    by (simp add: k)
  with k c accepted_ex_groups returned_ex_groups show ?thesis by blast
qed

text \<open>
  C7 as first stated fails on the table \<open>ex_groups\<close>: its first two rows form one group
  whose categories are the third level and then the first level, once each. The
  category met first is the third level, the method reports the first level. The third
  row has no \<open>culture\<close> and gets no row in the result.
\<close>

theorem tie_and_missing_key_counterexample:
  "snd (snd (calculate_risk_metrics ex_library (init Map.empty True) ex_groups)) = Some ex_groups_result
   \<and> map (\<lambda>r. cell_of r ''risk_category'')
        (group_rows (fst (snd (calculate_risk_metrics ex_library (init Map.empty True) ex_groups)))
           (Str ''P001'', Str ''Ble'')) = [Cat Modere, Cat Tres_Bas]
   \<and> first_encountered_mode [Cat Modere, Cat Tres_Bas] = Cat Modere
   \<and> column ex_groups_result ''most_frequent_risk_category'' = [Cat Tres_Bas]
   \<and> remdups (map key_of (rows ex_groups)) = [(Str ''P001'', Str ''Ble''), (Str ''P002'', NaN)]
   \<and> length (rows ex_groups_result) = 1"
proof -
  have "map (\<lambda>r. cell_of r ''risk_category'')
        (group_rows (scored ex_groups) (Str ''P001'', Str ''Ble'')) = [Cat Modere, Cat Tres_Bas]"
    by (simp add: group_rows_def rows_scored_ex_groups key_of_def cell_of_def)
  moreover have "first_encountered_mode [Cat Modere, Cat Tres_Bas] = Cat Modere"
    by (simp add: first_encountered_mode_def levels_of_def)
  moreover have "column ex_groups_result ''most_frequent_risk_category'' = [Cat Tres_Bas]"
    by (simp add: column_def ex_groups_result_def mk_frame_def cell_of_def)
  moreover have "remdups (map key_of (rows ex_groups)) =
      [(Str ''P001'', Str ''Ble''), (Str ''P002'', NaN)]"
    by (simp add: rows_ex_groups key_of_def cell_of_def)
  moreover have "length (rows ex_groups_result) = 1"
    by (simp add: ex_groups_result_def mk_frame_def)
  ultimately show ?thesis
    by (simp add: returned_ex_groups table_after_accepted accepted_ex_groups)
qed

text \<open>
  C9 (as amended). \<^verbatim>\<open>calculate_risk_metrics\<close> writes into the caller's table. Whatever
  the table, after the call it is either as it was, or it has the columns \<open>risk_index\<close>
  and \<open>risk_category\<close> appended (or overwritten where they exist), the same number of rows
  and every other column as it was. On an accepted table the columns are written; a
  table that lacks a required column, or has no row, is left as it was.
\<close>

theorem risk_columns_added_to_input:
  assumes "calculate_risk_metrics lib st data = (st', data', res)"
  shows "(data' = data
          \<or> columns data' = columns data
               @ filter (\<lambda>c. c \<notin> set (columns data)) [''risk_index'', ''risk_category'']
            \<and> length (rows data') = length (rows data)
            \<and> (\<forall>i < length (rows data). \<forall>c. c \<noteq> ''risk_index'' \<longrightarrow> c \<noteq> ''risk_category''
                  \<longrightarrow> cell_of (rows data' ! i) c = cell_of (rows data ! i) c))
       \<and> (accepted data \<longrightarrow>
            columns data' = columns data
               @ filter (\<lambda>c. c \<notin> set (columns data)) [''risk_index'', ''risk_category'']
          \<and> length (rows data') = length (rows data)
          \<and> (\<forall>i < length (rows data). \<forall>c. c \<noteq> ''risk_index'' \<longrightarrow> c \<noteq> ''risk_category''
                \<longrightarrow> cell_of (rows data' ! i) c = cell_of (rows data ! i) c))
       \<and> (\<not> list_all (\<lambda>c. c \<in> set (columns data)) required_columns \<longrightarrow> data' = data)
       \<and> (rows data = [] \<longrightarrow> data' = data)"
proof -
  have d: "data' = fst (snd (calculate_risk_metrics lib st data))"
    using assms by simp
  have written: "columns data' = columns data
               @ filter (\<lambda>c. c \<notin> set (columns data)) [''risk_index'', ''risk_category'']
          \<and> length (rows data') = length (rows data)
          \<and> (\<forall>i < length (rows data). \<forall>c. c \<noteq> ''risk_index'' \<longrightarrow> c \<noteq> ''risk_category''
                \<longrightarrow> cell_of (rows data' ! i) c = cell_of (rows data ! i) c)"
    if "data' = add_risk_columns data [n0, n1, n2]" "length n0 = length (rows data)"
      "length n1 = length (rows data)" "length n2 = length (rows data)" for n0 n1 n2
    unfolding that(1) using add_risk_columns_frame [OF that(2-4)] by blast
  have 1: "data' = data
          \<or> columns data' = columns data
               @ filter (\<lambda>c. c \<notin> set (columns data)) [''risk_index'', ''risk_category'']
            \<and> length (rows data') = length (rows data)
            \<and> (\<forall>i < length (rows data). \<forall>c. c \<noteq> ''risk_index'' \<longrightarrow> c \<noteq> ''risk_category''
                  \<longrightarrow> cell_of (rows data' ! i) c = cell_of (rows data ! i) c)"
    using table_after_call [of lib st data] written unfolding d [symmetric] by blast
  have 2: "columns data' = columns data
               @ filter (\<lambda>c. c \<notin> set (columns data)) [''risk_index'', ''risk_category'']
          \<and> length (rows data') = length (rows data)
          \<and> (\<forall>i < length (rows data). \<forall>c. c \<noteq> ''risk_index'' \<longrightarrow> c \<noteq> ''risk_category''
                \<longrightarrow> cell_of (rows data' ! i) c = cell_of (rows data ! i) c)"
    if "accepted data"
  proof -
    have s: "data' = scored data" using that by (simp add: d table_after_accepted)
    have "columns data' = columns data
               @ filter (\<lambda>c. c \<notin> set (columns data)) [''risk_index'', ''risk_category'']"
      by (simp add: s columns_scored Let_def)
    moreover have "length (rows data') = length (rows data)"
      by (simp add: s rows_scored)
    moreover have "\<forall>i < length (rows data). \<forall>c. c \<noteq> ''risk_index'' \<longrightarrow> c \<noteq> ''risk_category''
                \<longrightarrow> cell_of (rows data' ! i) c = cell_of (rows data ! i) c"
      by (simp add: s rows_scored cell_of_score_row)
    ultimately show ?thesis by blast
  qed
  have 3: "data' = data" if "\<not> list_all (\<lambda>c. c \<in> set (columns data)) required_columns"
    using that by (simp add: d table_after_missing_column)
  have 4: "data' = data" if "rows data = []"
    using that by (simp add: d table_after_no_row)
  from 1 2 3 4 show ?thesis by blast
qed

theorem risk_columns_added_to_input_witness:
  "accepted ex_table
   \<and> columns (fst (snd (calculate_risk_metrics ex_library (init Map.empty True) ex_table))) =
       [''parcelle_id'', ''culture'', ''rendement_estime'', ''ph'', ''matiere_organique'',
        ''risk_index'', ''risk_category'']
   \<and> length (rows (fst (snd (calculate_risk_metrics ex_library (init Map.empty True) ex_table)))) = 2
   \<and> cell_of (rows (fst (snd (calculate_risk_metrics ex_library (init Map.empty True) ex_table))) ! 1)
        ''ph'' = Num 1
   \<and> ''ph'' \<notin> set (columns ex_no_ph)
   \<and> fst (snd (calculate_risk_metrics ex_library (init Map.empty True) ex_no_ph)) = ex_no_ph
   \<and> rows ex_header = []
   \<and> fst (snd (calculate_risk_metrics ex_library (init Map.empty True) ex_header)) = ex_header"
proof -
  have n: "\<not> list_all (\<lambda>c. c \<in> set (columns ex_no_ph)) required_columns"
    "''ph'' \<notin> set (columns ex_no_ph)"
    by (simp_all add: ex_no_ph_def mk_frame_def required_columns_def)
  have h: "rows ex_header = []"
    by (simp add: ex_header_def mk_frame_def)
  have c: "columns ex_table =
       [''parcelle_id'', ''culture'', ''rendement_estime'', ''ph'', ''matiere_organique'']"
    by (simp add: ex_table_def mk_frame_def)
  from risk_columns_added_to_input
         [where lib = ex_library and st = "init Map.empty True" and data = ex_table,
          OF calculate_risk_metrics_parts]
    risk_columns_added_to_input
         [where lib = ex_library and st = "init Map.empty True" and data = ex_no_ph,
          OF calculate_risk_metrics_parts]
    risk_columns_added_to_input
         [where lib = ex_library and st = "init Map.empty True" and data = ex_header,
          OF calculate_risk_metrics_parts]
    accepted_ex_table n h
  show ?thesis
    by (simp add: c rows_ex_table cell_of_def)
qed

text \<open>
  C9 as first stated fails on the table \<open>ex_table\<close>: after the call the caller's table
  has two more columns.
\<close>

theorem input_table_changed:
  "fst (snd (calculate_risk_metrics ex_library (init Map.empty True) ex_table)) \<noteq> ex_table
   \<and> columns ex_table =
       [''parcelle_id'', ''culture'', ''rendement_estime'', ''ph'', ''matiere_organique'']
   \<and> columns (fst (snd (calculate_risk_metrics ex_library (init Map.empty True) ex_table))) =
       [''parcelle_id'', ''culture'', ''rendement_estime'', ''ph'', ''matiere_organique'',
        ''risk_index'', ''risk_category'']"
proof -
  have c: "columns ex_table =
       [''parcelle_id'', ''culture'', ''rendement_estime'', ''ph'', ''matiere_organique'']"
    by (simp add: ex_table_def mk_frame_def)
  have "columns (scored ex_table) =
       [''parcelle_id'', ''culture'', ''rendement_estime'', ''ph'', ''matiere_organique'',
        ''risk_index'', ''risk_category'']"
    by (simp add: columns_scored c)
  then have "columns (fst (snd (calculate_risk_metrics ex_library (init Map.empty True) ex_table))) =
       [''parcelle_id'', ''culture'', ''rendement_estime'', ''ph'', ''matiere_organique'',
        ''risk_index'', ''risk_category'']"
    by (simp add: table_after_accepted accepted_ex_table)
  with c show ?thesis by auto
qed

section \<open>Claims about loading, cleaning and resampling\<close>

text \<open>
  C10 (as amended). After \<^verbatim>\<open>meteo_data_hourly_to_daily\<close> on a weather table with a
  \<open>date\<close> column and at least one valid date, either the weather table has one row for
  every calendar day of the closed range from the earliest to the latest valid input
  date, in order, the rows of the days on which the input has no observation being
  there too, with missing values in every numeric column; or the aggregation has failed
  and the weather table is the input table with its dates coerced, not resampled. The
  second happens only when some other column is not numeric and the installed pandas
  does not drop such columns.
\<close>

theorem daily_rows_cover_range:
  assumes "weather_data st = Some w"
    and "''date'' \<in> set (columns w)"
    and "days (coerce_dates (parse_date lib) w) = ds"
    and "ds \<noteq> []"
  shows "(\<exists>w'. weather_data (meteo_data_hourly_to_daily lib st) = Some w'
            \<and> column w' ''date'' = map (\<lambda>d. Date (d * day_ns)) [Min (set ds) .. Max (set ds)]
            \<and> (\<forall>r \<in> set (rows w'). \<forall>d. cell_of r ''date'' = Date (d * day_ns) \<longrightarrow> d \<notin> set ds
                  \<longrightarrow> (\<forall>c \<in> set (value_columns w). numeric_column w c \<longrightarrow> cell_of r c = NaN)))
       \<or> (weather_data (meteo_data_hourly_to_daily lib st) = Some (coerce_dates (parse_date lib) w)
          \<and> \<not> drops_other lib
          \<and> \<not> list_all (numeric_column w) (value_columns w))"
proof -
  let ?w1 = "coerce_dates (parse_date lib) w"
  let ?kept = "if drops_other lib then filter (numeric_column ?w1) (value_columns ?w1)
               else value_columns ?w1"
  let ?w2 = "\<lparr>columns = ''date'' # ?kept,
              rows = map (daily_row lib ?w1 ?kept) [Min (set ds) .. Max (set ds)]\<rparr>"
  have vc: "value_columns ?w1 = value_columns w"
    by (rule value_columns_coerce_dates [OF assms(2)])
  have ne: "days ?w1 \<noteq> []"
    using assms(3,4) by simp
  show ?thesis
  proof (cases "\<not> drops_other lib
                 \<and> \<not> list_all (\<lambda>c. numeric_column ?w1 c \<or> stamp_column ?w1 c) (value_columns ?w1)")
    case True
    then have "resample_mean lib ?w1 = Inl (TypeError ''agg function failed'')"
      by (simp add: resample_mean_dated [OF ne])
    then have "weather_data (meteo_data_hourly_to_daily lib st) = Some ?w1"
      using assms(1,2) by (simp add: meteo_data_hourly_to_daily_def Let_def print_error_def)
    moreover from True have "\<not> list_all (\<lambda>c. numeric_column w c \<or> stamp_column w c) (value_columns w)"
      by (simp add: vc averaged_coerce_dates)
    then have "\<not> list_all (numeric_column w) (value_columns w)"
      by (auto simp: list_all_iff)
    ultimately show ?thesis using True by blast
  next
    case False
    then have "resample_mean lib ?w1 = Inr ?w2"
      by (simp add: resample_mean_dated [OF ne] assms(3))
    then have w': "weather_data (meteo_data_hourly_to_daily lib st) = Some ?w2"
      using assms(1,2) by (simp add: meteo_data_hourly_to_daily_def Let_def)
    have dates: "column ?w2 ''date'' = map (\<lambda>d. Date (d * day_ns)) [Min (set ds) .. Max (set ds)]"
      by (simp add: column_def cell_of_daily_row_date comp_def)
    have gap: "\<forall>c \<in> set (value_columns w). numeric_column w c \<longrightarrow> cell_of r c = NaN"
      if "r \<in> set (rows ?w2)" "cell_of r ''date'' = Date (d * day_ns)" "d \<notin> set ds" for r d
    proof
      fix c assume c: "c \<in> set (value_columns w)"
      from that(1) obtain d' where r: "r = daily_row lib ?w1 ?kept d'" by auto
      from that(2) have "d' = d"
        by (simp add: r cell_of_daily_row_date day_ns_def)
      moreover have "c \<noteq> ''date''" using c by (simp add: value_columns_def)
      ultimately have "cell_of r c = NaN"
        unfolding r using that(3) assms(3) by (simp add: cell_of_daily_row_empty)
      then show "numeric_column w c \<longrightarrow> cell_of r c = NaN" by simp
    qed
    show ?thesis
      using w' dates gap by blast
  qed
qed

theorem daily_rows_cover_range_witness:
  "days (coerce_dates (parse_date ex_library) ex_weather) = [0, 2]
   \<and> list_all (numeric_column ex_weather) (value_columns ex_weather)
   \<and> weather_data (meteo_data_hourly_to_daily ex_library (with_weather ex_weather))
       = Some ex_weather_daily
   \<and> column ex_weather_daily ''date'' = [Date 0, Date 86400000000000, Date 172800000000000]
   \<and> column ex_weather_daily ''temperature'' = [Num 5, NaN, Num 7]
   \<and> days (coerce_dates (parse_date ex_library_dropping) ex_stations) = [0, 2]
   \<and> drops_other ex_library_dropping
   \<and> weather_data (meteo_data_hourly_to_daily ex_library_dropping (with_weather ex_stations))
       = Some ex_stations_daily
   \<and> column ex_stations_daily ''date'' = [Date 0, Date 86400000000000, Date 172800000000000]
   \<and> column ex_stations_daily ''temperature'' = [Num 5, NaN, Num 7]"
proof -
  have c: "''date'' \<in> set (columns ex_weather)" "''date'' \<in> set (columns ex_stations)"
    by (simp_all add: ex_weather_def ex_stations_def mk_frame_def)
  have n: "list_all (numeric_column ex_weather) (value_columns ex_weather)"
    by (simp add: value_columns_def numeric_column_def column_def ex_weather_def mk_frame_def
        cell_of_def)
  from daily_rows_cover_range [OF with_weather_simps c(1) days_ex_weather, of ex_library] n
  obtain w' where
    "weather_data (meteo_data_hourly_to_daily ex_library (with_weather ex_weather)) = Some w'"
    and d: "column w' ''date'' = map (\<lambda>d. Date (d * day_ns)) [Min (set [0, 2]) .. Max (set [0, 2])]"
    by auto
  then have w': "w' = ex_weather_daily" by (simp add: daily_ex_weather)
  have 1: "column ex_weather_daily ''date'' = [Date 0, Date 86400000000000, Date 172800000000000]"
    using d by (simp add: w' upto_0_2 day_ns_def)
  have 2: "column ex_weather_daily ''temperature'' = [Num 5, NaN, Num 7]"
    by (simp add: column_def ex_weather_daily_def mk_frame_def cell_of_def)
  from daily_rows_cover_range [OF with_weather_simps c(2) days_ex_stations, of ex_library_dropping]
    drops_ex_library(2)
  obtain w'' where
    "weather_data (meteo_data_hourly_to_daily ex_library_dropping (with_weather ex_stations))
       = Some w''"
    and e: "column w'' ''date'' = map (\<lambda>d. Date (d * day_ns)) [Min (set [0, 2]) .. Max (set [0, 2])]"
    by auto
  then have w'': "w'' = ex_stations_daily" by (simp add: daily_ex_stations_dropping)
  have 3: "column ex_stations_daily ''date'' = [Date 0, Date 86400000000000, Date 172800000000000]"
    using e by (simp add: w'' upto_0_2 day_ns_def)
  have 4: "column ex_stations_daily ''temperature'' = [Num 5, NaN, Num 7]"
    by (simp add: column_def ex_stations_daily_def mk_frame_def cell_of_def)
  show ?thesis
    using n 1 2 3 4
    by (simp add: days_ex_weather days_ex_stations daily_ex_weather daily_ex_stations_dropping
        drops_ex_library)
qed

text \<open>
  C10 as first stated fails on the table \<open>ex_stations\<close> under a pandas that raises on the
  columns it cannot average: the table has rows on day 0 and on day 2 and a column of
  text; the aggregation raises \<^verbatim>\<open>TypeError\<close>, the method prints it, and the weather table
  is left with its two rows, none for day 1. Under a pandas that drops the column of
  text the same table gets its three rows.
\<close>

theorem text_column_not_resampled:
  "days (coerce_dates (parse_date ex_library) ex_stations) = [0, 2]
   \<and> weather_data (meteo_data_hourly_to_daily ex_library (with_weather ex_stations))
       = Some ex_stations
   \<and> printed (meteo_data_hourly_to_daily ex_library (with_weather ex_stations))
       = [Erreur ''meteo_data_hourly_to_daily'' (TypeError ''agg function failed'')]
   \<and> column ex_stations ''date'' = [Date 0, Date 172800000000000]
   \<and> map (\<lambda>d. Date (d * day_ns)) [0 .. 2]
       = [Date 0, Date 86400000000000, Date 172800000000000]
   \<and> weather_data (meteo_data_hourly_to_daily ex_library_dropping (with_weather ex_stations))
       = Some ex_stations_daily
   \<and> column ex_stations_daily ''date'' = [Date 0, Date 86400000000000, Date 172800000000000]"
proof -
  have "column ex_stations ''date'' = [Date 0, Date 172800000000000]"
    by (simp add: column_def ex_stations_def mk_frame_def cell_of_def)
  moreover have "map (\<lambda>d. Date (d * day_ns)) [0 .. 2]
       = [Date 0, Date 86400000000000, Date 172800000000000]"
    by (simp add: upto_0_2 day_ns_def)
  moreover have "column ex_stations_daily ''date'' = [Date 0, Date 86400000000000, Date 172800000000000]"
    by (simp add: column_def ex_stations_daily_def mk_frame_def cell_of_def)
  ultimately show ?thesis
    by (simp add: days_ex_stations daily_ex_stations daily_ex_stations_dropping
        with_weather_simps)
qed

text \<open>
  C8. \<^verbatim>\<open>meteo_data_hourly_to_daily\<close> on a weather table that already has exactly one row
  per calendar day keeps the number of rows, and every input row is found again on its
  day with the same value in every numeric column. This holds for either treatment of
  non-numeric columns and whatever the date parser does.
\<close>

theorem resample_daily_unchanged:
  assumes "weather_data st = Some w"
    and "''date'' \<in> set (columns w)"
    and "one_row_per_day w"
  shows "\<exists>w'. weather_data (meteo_data_hourly_to_daily lib st) = Some w'
            \<and> length (rows w') = length (rows w)
            \<and> (\<forall>r \<in> set (rows w). \<exists>r' \<in> set (rows w'). day_of r' = day_of r
                  \<and> (\<forall>c \<in> set (value_columns w). numeric_column w c
                        \<longrightarrow> cell_of r' c = cell_of r c))"
proof -
  let ?parse = "parse_date lib"
  let ?w1 = "coerce_dates ?parse w"
  let ?kept = "if drops_other lib then filter (numeric_column ?w1) (value_columns ?w1)
               else value_columns ?w1"
  from assms(3) have v: "list_all (\<lambda>r. day_of r \<noteq> None) (rows w)"
    by (simp add: one_row_per_day_def)
  have dated: "day_of r \<noteq> None" if "r \<in> set (rows w)" for r
    using v that by (simp add: list_all_iff)
  have ds: "days ?w1 = days w" by (rule days_coerce_dated [OF v])
  have vc: "value_columns ?w1 = value_columns w"
    by (rule value_columns_coerce_dates [OF assms(2)])
  have kept: "c \<in> set ?kept" if "c \<in> set (value_columns w)" "numeric_column w c" for c
  proof -
    have "c \<noteq> ''date''" using that(1) by (simp add: value_columns_def)
    then show ?thesis using that by (simp add: vc numeric_column_coerce_dates)
  qed
  have nonempty: "days w \<noteq> []" if "rows w \<noteq> []"
  proof -
    from that obtain r where "r \<in> set (rows w)" by (cases "rows w") auto
    with dated [of r] have "\<exists>d. d \<in> set (days w)" by (auto simp: set_days)
    then show ?thesis by auto
  qed
  have same: "\<exists>r' \<in> set (rows ?w1). day_of r' = day_of r
                  \<and> (\<forall>c \<in> set (value_columns w). numeric_column w c
                        \<longrightarrow> cell_of r' c = cell_of r c)"
    if "r \<in> set (rows w)" for r
    using that dated [OF that]
    by (intro bexI [of _ "coerce_row ?parse r"])
       (simp_all add: day_of_coerce_row coerce_row_dated rows_coerce_dates)
  show ?thesis
  proof (cases "rows w = []")
    case True
    then have "rows ?w1 = []" by (simp add: rows_coerce_dates)
    then have "weather_data (meteo_data_hourly_to_daily lib st)
                 = Some \<lparr>columns = ''date'' # ?kept, rows = []\<rparr>"
      using assms(1,2) by (simp add: meteo_data_hourly_to_daily_def Let_def resample_mean_no_row)
    then show ?thesis using True by simp
  next
    case rows: False
    then have ne: "days ?w1 \<noteq> []" using nonempty by (simp add: ds)
    show ?thesis
    proof (cases "\<not> drops_other lib
                   \<and> \<not> list_all (\<lambda>c. numeric_column ?w1 c \<or> stamp_column ?w1 c) (value_columns ?w1)")
      case True
      then have "resample_mean lib ?w1 = Inl (TypeError ''agg function failed'')"
        by (simp add: resample_mean_dated [OF ne])
      then have "weather_data (meteo_data_hourly_to_daily lib st) = Some ?w1"
        using assms(1,2) by (simp add: meteo_data_hourly_to_daily_def Let_def print_error_def)
      moreover have "length (rows ?w1) = length (rows w)" by (simp add: rows_coerce_dates)
      ultimately show ?thesis using same by blast
    next
      case False
      let ?w2 = "\<lparr>columns = ''date'' # ?kept,
                  rows = map (daily_row lib ?w1 ?kept) [Min (set (days w)) .. Max (set (days w))]\<rparr>"
      from False have "resample_mean lib ?w1 = Inr ?w2"
        by (simp add: resample_mean_dated [OF ne] ds)
      then have w': "weather_data (meteo_data_hourly_to_daily lib st) = Some ?w2"
        using assms(1,2) by (simp add: meteo_data_hourly_to_daily_def Let_def)
      have len: "length (rows ?w2) = length (rows w)"
        using one_row_per_day_length [OF assms(3) rows] by simp
      have found: "\<exists>r' \<in> set (rows ?w2). day_of r' = day_of r
                    \<and> (\<forall>c \<in> set (value_columns w). numeric_column w c
                          \<longrightarrow> cell_of r' c = cell_of r c)"
        if r: "r \<in> set (rows w)" for r
      proof -
        from dated [OF r] obtain d where d: "day_of r = Some d" by auto
        have mem: "daily_row lib ?w1 ?kept d \<in> set (rows ?w2)"
          using one_row_per_day_range [OF assms(3) r d] by simp
        have "distinct (map day_of (rows ?w1))"
          using one_row_per_day_distinct [OF assms(3)] by (simp add: rows_coerce_dated [OF v])
        moreover have "coerce_row ?parse r \<in> set (rows ?w1)"
          using r by (simp add: rows_coerce_dates)
        ultimately have "filter (\<lambda>y. day_of y = day_of (coerce_row ?parse r)) (rows ?w1)
            = [coerce_row ?parse r]"
          by (rule filter_unique)
        then have on: "rows_on ?w1 d = [coerce_row ?parse r]"
          using d dated [OF r] by (simp add: rows_on_def day_of_coerce_row)
        have cells: "cell_of (daily_row lib ?w1 ?kept d) c = cell_of r c"
          if c: "c \<in> set (value_columns w)" "numeric_column w c" for c
        proof -
          have nd: "c \<noteq> ''date''" using c(1) by (simp add: value_columns_def)
          have num: "numeric_column ?w1 c"
            using c(2) nd by (simp add: numeric_column_coerce_dates)
          have "is_numeric (cell_of r c)"
            using c(2) r by (simp add: numeric_column_def column_def list_all_iff)
          then have "daily_value lib ?w1 c d = cell_of r c"
            using dated [OF r]
            by (simp add: daily_value_numeric [OF num] on coerce_row_dated mean_cells_single)
          then show ?thesis
            using kept [OF c] nd by (simp add: cell_of_daily_row)
        qed
        show ?thesis
          using mem cells d
          by (intro bexI [of _ "daily_row lib ?w1 ?kept d"]) (simp_all add: day_of_daily_row)
      qed
      show ?thesis using w' len found by blast
    qed
  qed
qed

theorem resample_daily_unchanged_witness:
  "one_row_per_day ex_daily
   \<and> weather_data (meteo_data_hourly_to_daily ex_library_dropping (with_weather ex_daily))
       = Some ex_daily_result
   \<and> length (rows ex_daily_result) = length (rows ex_daily)
   \<and> column ex_daily ''temperature'' = [Num 5, Num 7]
   \<and> column ex_daily_result ''temperature'' = [Num 7, Num 5]"
proof -
  have c: "''date'' \<in> set (columns ex_daily)"
    by (simp add: ex_daily_def mk_frame_def)
  from resample_daily_unchanged [OF with_weather_simps c one_row_per_day_ex_daily,
         of ex_library_dropping]
  obtain w' where
    "weather_data (meteo_data_hourly_to_daily ex_library_dropping (with_weather ex_daily)) = Some w'"
    and l: "length (rows w') = length (rows ex_daily)"
    by auto
  then have "w' = ex_daily_result" by (simp add: daily_ex_daily)
  with l have "length (rows ex_daily_result) = length (rows ex_daily)" by simp
  moreover have "column ex_daily ''temperature'' = [Num 5, Num 7]"
    "column ex_daily_result ''temperature'' = [Num 7, Num 5]"
    by (simp_all add: column_def ex_daily_def ex_daily_result_def mk_frame_def cell_of_def)
  ultimately show ?thesis
    by (simp add: one_row_per_day_ex_daily daily_ex_daily)
qed

text \<open>
  C5 says that every stage catches its own faults. \<^verbatim>\<open>clean_data\<close> does not: when the
  weather file is missing (here only the monitoring file is there), \<^verbatim>\<open>load_data\<close> prints
  the error and leaves \<open>weather_data\<close> unset, and the \<^verbatim>\<open>clean_data\<close> that follows raises
  \<^verbatim>\<open>TypeError\<close> to its caller. The five other stage methods return a state and a result
  in every case, as their \<^verbatim>\<open>try\<close> blocks make them.
\<close>

theorem clean_data_propagates:
  "monitoring_data (load_data (init [''data/monitoring_cultures.csv'' \<mapsto> ex_monitoring] True))
     = Some ex_monitoring
   \<and> weather_data (load_data (init [''data/monitoring_cultures.csv'' \<mapsto> ex_monitoring] True))
     = None
   \<and> printed (load_data (init [''data/monitoring_cultures.csv'' \<mapsto> ex_monitoring] True))
     = [Erreur ''load_data'' (FileNotFoundError ''data/meteo_detaillee.csv'')]
   \<and> clean_data (load_data (init [''data/monitoring_cultures.csv'' \<mapsto> ex_monitoring] True))
     = Inl (TypeError ''NoneType object is not subscriptable'')"
proof -
  have "''date'' \<in> set (columns ex_monitoring)"
    by (simp add: ex_monitoring_def mk_frame_def)
  then show ?thesis
    by (simp add: clean_data_def load_data_def read_csv_def init_def print_error_def)
qed

section \<open>Claims about feature preparation\<close>



section \<open>Claims about the temporal analysis\<close>

text \<open>
  C1 says that twelve NDVI observations of a parcel are enough for
  \<^verbatim>\<open>get_temporal_patterns\<close> to return its series. They are not: the method lets twelve
  observations pass its own check, and the decomposition with period 12 then refuses
  fewer than 24. On the table \<open>ex_twelve\<close> the method prints that error and returns
  \<^verbatim>\<open>None\<close>. (Lemma \<open>missing_ndvi_returns_none\<close>: it also returns \<^verbatim>\<open>None\<close> whenever a row of
  the parcel has no NDVI value, since the fit gets the dates of all the rows and the
  values of some. Lemma \<open>get_temporal_patterns_complete\<close>: what holds from 24 complete
  rows on.)
\<close>

theorem twelve_observations_return_none:
  "length (observations ex_twelve (Str ''P001'')) = 12
   \<and> length (parcel_rows ex_twelve (Str ''P001'')) = 12
   \<and> get_temporal_patterns (with_features ex_twelve) (Str ''P001'') =
       (print_error ''get_temporal_patterns''
          (ValueError ''x must have 2 complete cycles requires 24 observations'')
          (with_features ex_twelve), None)"
proof -
  have f: "files (with_features ex_twelve) ''data/features.csv'' = Some ex_twelve"
    by (simp add: with_features_def init_def)
  have c: "''date'' \<in> set (columns ex_twelve)" "''parcelle_id'' \<in> set (columns ex_twelve)"
    "''ndvi'' \<in> set (columns ex_twelve)"
    by (simp_all add: ex_twelve_def)
  have ne: "parcel_rows ex_twelve (Str ''P001'') \<noteq> []"
    using length_rows_ex_twelve by (auto simp: parcel_rows_ex_twelve)
  have d: "\<forall>r \<in> set (parcel_rows ex_twelve (Str ''P001'')). is_date (cell_of r ''date'')"
    by (simp add: parcel_rows_ex_twelve cells_ex_twelve)
  have t: "temporal_patterns (with_features ex_twelve) (Str ''P001'')
      = analyse (by_date (rows ex_twelve))"
    using temporal_patterns_dated [OF f c ne d] by (simp add: parcel_rows_ex_twelve)
  have "\<forall>r \<in> set (by_date (rows ex_twelve)). \<exists>x. cell_of r ''ndvi'' = Num x"
    unfolding set_by_date using cells_ex_twelve(3) by blast
  then have "analyse (by_date (rows ex_twelve)) =
      Inl (ValueError ''x must have 2 complete cycles requires 24 observations'')"
    by (rule analyse_short) (simp_all add: length_by_date length_rows_ex_twelve)
  then show ?thesis
    by (simp add: get_temporal_patterns_def t observations_ex_twelve parcel_rows_ex_twelve
        length_rows_ex_twelve)
qed

end
